theory Spec2Isabelle
  imports Complex_Main
begin

section \<open>Python values\<close>

text \<open>
  The journey builder keeps every numeric field in a Python dict, where a field is the
  object \<open>None\<close> (also what \<open>dict.get\<close> returns for an absent key), the float
  \<open>nan\<close> that pandas uses for an empty cell, or a number. The arithmetic of floats is
  that of the real numbers: no rounding error, no overflow to infinity. Only where the
  source rounds a float to decimals is the double taken into account (\<open>to_double\<close>
  below).
\<close>

datatype pyval = PyNone | PyNaN | PyNum real

text \<open>Python truthiness: \<open>None\<close> and zero are falsy, \<open>nan\<close> is truthy.\<close>

fun truthy :: "pyval \<Rightarrow> bool" where
  "truthy PyNone = False"
| "truthy PyNaN = True"
| "truthy (PyNum x) = (x \<noteq> 0)"

text \<open>\<open>a or b\<close>\<close>

definition py_or :: "pyval \<Rightarrow> pyval \<Rightarrow> pyval" where
  "py_or a b = (if truthy a then a else b)"

text \<open>\<open>pd.isna\<close> and \<open>pd.notna\<close>\<close>

fun isna :: "pyval \<Rightarrow> bool" where
  "isna PyNone = True"
| "isna PyNaN = True"
| "isna (PyNum x) = False"

definition notna :: "pyval \<Rightarrow> bool" where
  "notna v = (\<not> isna v)"

text \<open>Float arithmetic and comparison: \<open>nan\<close> propagates and compares false. The
  source never applies them to \<open>None\<close> (each use is behind a truthiness test); the
  model gives \<open>nan\<close> there.\<close>

fun py_add :: "pyval \<Rightarrow> pyval \<Rightarrow> pyval" where
  "py_add (PyNum a) (PyNum b) = PyNum (a + b)"
| "py_add _ _ = PyNaN"

fun py_sub :: "pyval \<Rightarrow> pyval \<Rightarrow> pyval" where
  "py_sub (PyNum a) (PyNum b) = PyNum (a - b)"
| "py_sub _ _ = PyNaN"

fun py_mul :: "pyval \<Rightarrow> real \<Rightarrow> pyval" where
  "py_mul (PyNum a) c = PyNum (a * c)"
| "py_mul _ c = PyNaN"

fun py_gt :: "pyval \<Rightarrow> real \<Rightarrow> bool" where
  "py_gt (PyNum a) c = (a > c)"
| "py_gt _ c = False"

fun py_ge :: "pyval \<Rightarrow> real \<Rightarrow> bool" where
  "py_ge (PyNum a) c = (a \<ge> c)"
| "py_ge _ c = False"

text \<open>\<open>int(x)\<close> on a float truncates towards zero.\<close>

definition py_int :: "real \<Rightarrow> int" where
  "py_int x = (if x \<ge> 0 then \<lfloor>x\<rfloor> else \<lceil>x\<rceil>)"

section \<open>The poverty (FPL) model\<close>

definition FPL_BASE :: int where
  "FPL_BASE = 15060"

definition FPL_PER_ADDITIONAL :: int where
  "FPL_PER_ADDITIONAL = 5380"

text \<open>
  \<open>calculate_fpl_pct\<close> of \<open>src/etl/journey.py\<close>:
  \<^verbatim>\<open>
  if pd.isna(annual_income) or annual_income <= 0:
      return None
  hh = max(1, int(household_size)) if pd.notna(household_size) else 3
  poverty_line = FPL_BASE + FPL_PER_ADDITIONAL * (hh - 1)
  return (annual_income / poverty_line) * 100
  \<close>
  The poverty line is at least 15060, so the division cannot fail.
\<close>

definition household_count :: "pyval \<Rightarrow> int" where
  "household_count household_size =
     (case household_size of PyNum h \<Rightarrow> max 1 (py_int h) | _ \<Rightarrow> 3)"

definition calculate_fpl_pct :: "pyval \<Rightarrow> pyval \<Rightarrow> pyval" where
  "calculate_fpl_pct annual_income household_size =
     (case annual_income of
        PyNum a \<Rightarrow>
          if a \<le> 0 then PyNone
          else
            let hh = household_count household_size;
                poverty_line = FPL_BASE + FPL_PER_ADDITIONAL * (hh - 1)
            in PyNum ((a / real_of_int poverty_line) * 100)
      | _ \<Rightarrow> PyNone)"

text \<open>
  \<open>get_poverty_line\<close> and \<open>calculate_fpl\<close> of \<open>src/analytics/metrics.py\<close>:
  \<^verbatim>\<open>
  def get_poverty_line(household_size):
      if household_size < 1:
          household_size = 1
      return FPL_BASE + FPL_PER_ADDITIONAL * (household_size - 1)

  def calculate_fpl(annual_income, household_size):
      if pd.isna(annual_income) or pd.isna(household_size):
          return None
      if household_size < 1:
          return None
      if annual_income < 0:
          return None
      poverty_line = get_poverty_line(int(household_size))
      return (annual_income / poverty_line) * 100
  \<close>
\<close>

definition get_poverty_line :: "int \<Rightarrow> int" where
  "get_poverty_line household_size =
     (let hs = (if household_size < 1 then 1 else household_size)
      in FPL_BASE + FPL_PER_ADDITIONAL * (hs - 1))"

definition calculate_fpl :: "pyval \<Rightarrow> pyval \<Rightarrow> pyval" where
  "calculate_fpl annual_income household_size =
     (case (annual_income, household_size) of
        (PyNum a, PyNum h) \<Rightarrow>
          if h < 1 then PyNone
          else if a < 0 then PyNone
          else PyNum ((a / real_of_int (get_poverty_line (py_int h))) * 100)
      | _ \<Rightarrow> PyNone)"

text \<open>
  \<open>calculate_fpl_from_income\<close> of \<open>pipeline/etl/transform.py\<close>, which takes plain
  numbers and has no guard on the income:
  \<^verbatim>\<open>
  if household_size < 1:
      household_size = 1
  poverty_line = fpl_base + (fpl_per_additional * (household_size - 1))
  if poverty_line == 0:
      return None
  return (annual_income / poverty_line) * 100
  \<close>
\<close>

definition calculate_fpl_from_income :: "real \<Rightarrow> int \<Rightarrow> pyval" where
  "calculate_fpl_from_income annual_income household_size =
     (let hs = (if household_size < 1 then 1 else household_size);
          poverty_line = 15060 + (5380 * (hs - 1))
      in if poverty_line = 0 then PyNone
         else PyNum ((annual_income / real_of_int poverty_line) * 100))"

section \<open>Source tables\<close>

text \<open>
  A pandas timestamp is a count of nanoseconds; \<open>Timedelta.days\<close> is the floor of the
  difference divided by one day.
\<close>

type_synonym timestamp = int

definition ns_per_day :: int where
  "ns_per_day = 86400000000000"

definition timedelta_days :: "timestamp \<Rightarrow> timestamp \<Rightarrow> int" where
  "timedelta_days last_date enrollment_date = (last_date - enrollment_date) div ns_per_day"

text \<open>
  One row of each table, after the field resolver. The numeric fields hold what
  \<open>get_numeric\<close> (or \<open>pd.to_numeric\<close> with \<open>errors='coerce'\<close>, for the Empower
  extract and the participant ids) returns for the row, the dates what
  \<open>parse_date(get_field(row, ['Submission Date']))\<close> returns (\<open>None\<close> when missing or
  unparseable), the text fields the cell, with \<open>None\<close> for a missing one. The matching
  of column names and the parsing of cells are pandas' and are not modelled.
\<close>

record empower_row =
  emp_participant_id :: pyval
  empower_wage_gain :: pyval
  empower_fpl_current :: pyval
  empower_fpl_enrollment :: pyval
  empower_household_size :: pyval
  empower_county :: "string option"
  empower_navigator :: "string option"

record intake_row =
  intake_participant_id :: pyval
  intake_county :: "string option"
  intake_enrollment_status :: "string option"
  intake_submission_date :: "timestamp option"
  intake_adults :: pyval
  intake_children :: pyval

record baseline_row =
  baseline_participant_id :: pyval
  baseline_submission_date :: "timestamp option"
  baseline_wage :: pyval

record quarterly_row =
  quarterly_participant_id :: pyval
  quarterly_submission_date :: "timestamp option"
  quarterly_income :: pyval

record col_row =
  col_participant_id :: pyval

text \<open>\<open>df[df['participant_id'] == pid]\<close>: the rows whose id column equals the integer.\<close>

definition id_matches :: "int \<Rightarrow> pyval \<Rightarrow> bool" where
  "id_matches pid v = (case v of PyNum x \<Rightarrow> x = real_of_int pid | _ \<Rightarrow> False)"

section \<open>The journey record\<close>

text \<open>
  The dict that \<open>build_single_journey\<close> fills. A key that was never assigned and a key
  holding \<open>None\<close> are both \<open>PyNone\<close> (or \<open>None\<close>): the function reads every key with
  \<open>dict.get\<close>, except \<open>has_positive_income_change\<close>, which is only ever assigned
  a boolean, so that \<open>None\<close> there means the key is absent.
\<close>

record journey =
  participant_id :: int
  income_change_annual :: pyval
  has_positive_income_change :: "bool option"
  current_fpl :: pyval
  enrollment_fpl :: pyval
  fpl_change :: pyval
  county :: "string option"
  household_size :: pyval
  navigator :: "string option"
  enrollment_status :: "string option"
  enrollment_date :: "timestamp option"
  household_adults :: pyval
  household_children :: pyval
  baseline_date :: "timestamp option"
  baseline_hourly_wage :: pyval
  baseline_monthly_income :: pyval
  first_quarterly_date :: "timestamp option"
  first_quarterly_monthly_income :: pyval
  last_quarterly_date :: "timestamp option"
  last_quarterly_monthly_income :: pyval
  quarterly_count :: "nat option"
  enrollment_monthly_income :: pyval
  current_monthly_income :: pyval
  income_change_monthly :: pyval
  days_in_program :: "int option"
  is_graduate :: "bool option"
  has_positive_fpl_change :: "bool option"
  cliff_tier :: "string option"
  total_assessments :: "nat option"

text \<open>\<open>journey = {'participant_id': int(pid)}\<close>\<close>

definition new_journey :: "int \<Rightarrow> journey" where
  "new_journey pid =
     \<lparr> participant_id = pid, income_change_annual = PyNone,
       has_positive_income_change = None, current_fpl = PyNone, enrollment_fpl = PyNone,
       fpl_change = PyNone, county = None, household_size = PyNone, navigator = None,
       enrollment_status = None, enrollment_date = None, household_adults = PyNone,
       household_children = PyNone, baseline_date = None, baseline_hourly_wage = PyNone,
       baseline_monthly_income = PyNone, first_quarterly_date = None,
       first_quarterly_monthly_income = PyNone, last_quarterly_date = None,
       last_quarterly_monthly_income = PyNone, quarterly_count = None,
       enrollment_monthly_income = PyNone, current_monthly_income = PyNone,
       income_change_monthly = PyNone, days_in_program = None, is_graduate = None,
       has_positive_fpl_change = None, cliff_tier = None, total_assessments = None \<rparr>"

text \<open>Truthiness of a text field: \<open>None\<close> and the empty string are falsy.\<close>

definition truthy_str :: "string option \<Rightarrow> bool" where
  "truthy_str s = (case s of None \<Rightarrow> False | Some t \<Rightarrow> t \<noteq> [])"

text \<open>\<open>a or b or c\<close> on dates: a timestamp is always truthy.\<close>

fun first_available :: "timestamp option list \<Rightarrow> timestamp option" where
  "first_available [] = None"
| "first_available (None # ds) = first_available ds"
| "first_available (Some d # ds) = Some d"

section \<open>The journey builder\<close>

text \<open>
  \<open>build_single_journey\<close> of \<open>src/etl/journey.py\<close>, one definition for each block of
  the function, in the order of the source. Each takes the dict built so far and returns
  it updated.
\<close>

text \<open>
  \<^verbatim>\<open>
  if len(empower_rec) > 0:
      emp_row = empower_rec.iloc[0]
      if pd.notna(emp_row.get('empower_wage_gain')):
          journey['income_change_annual'] = emp_row['empower_wage_gain']
          journey['has_positive_income_change'] = emp_row['empower_wage_gain'] > 0
      if pd.notna(emp_row.get('empower_fpl_current')):
          journey['current_fpl'] = emp_row['empower_fpl_current']
      if pd.notna(emp_row.get('empower_fpl_enrollment')):
          journey['enrollment_fpl'] = emp_row['empower_fpl_enrollment']
      if journey.get('current_fpl') and journey.get('enrollment_fpl'):
          journey['fpl_change'] = journey['current_fpl'] - journey['enrollment_fpl']
      if pd.notna(emp_row.get('empower_county')):
          journey['county'] = emp_row['empower_county']
      if pd.notna(emp_row.get('empower_household_size')):
          journey['household_size'] = emp_row['empower_household_size']
      if pd.notna(emp_row.get('empower_navigator')):
          journey['navigator'] = emp_row['empower_navigator']
  \<close>
\<close>

definition from_empower :: "empower_row list \<Rightarrow> journey \<Rightarrow> journey" where
  "from_empower empower_rec j =
     (case empower_rec of
        [] \<Rightarrow> j
      | emp_row # _ \<Rightarrow>
          let j = (if notna (empower_wage_gain emp_row)
                   then j\<lparr>income_change_annual := empower_wage_gain emp_row,
                          has_positive_income_change :=
                            Some (py_gt (empower_wage_gain emp_row) 0)\<rparr>
                   else j);
              j = (if notna (empower_fpl_current emp_row)
                   then j\<lparr>current_fpl := empower_fpl_current emp_row\<rparr> else j);
              j = (if notna (empower_fpl_enrollment emp_row)
                   then j\<lparr>enrollment_fpl := empower_fpl_enrollment emp_row\<rparr> else j);
              j = (if truthy (current_fpl j) \<and> truthy (enrollment_fpl j)
                   then j\<lparr>fpl_change := py_sub (current_fpl j) (enrollment_fpl j)\<rparr>
                   else j);
              j = (if empower_county emp_row \<noteq> None
                   then j\<lparr>county := empower_county emp_row\<rparr> else j);
              j = (if notna (empower_household_size emp_row)
                   then j\<lparr>household_size := empower_household_size emp_row\<rparr> else j);
              j = (if empower_navigator emp_row \<noteq> None
                   then j\<lparr>navigator := empower_navigator emp_row\<rparr> else j)
          in j)"

text \<open>
  \<^verbatim>\<open>
  if len(intake_rec) > 0:
      row = intake_rec.iloc[0]
      if not journey.get('county'):
          journey['county'] = get_field(row, ['County'])
      journey['enrollment_status'] = get_field(row, ['Enrollment Status'])
      journey['enrollment_date'] = parse_date(get_field(row, ['Submission Date']))
      journey['household_adults'] = get_numeric(row, [...])
      journey['household_children'] = get_numeric(row, [...])
      if not journey.get('household_size'):
          journey['household_size'] = (journey.get('household_adults') or 1)
                                    + (journey.get('household_children') or 2)
  \<close>
\<close>

definition from_intake :: "intake_row list \<Rightarrow> journey \<Rightarrow> journey" where
  "from_intake intake_rec j =
     (case intake_rec of
        [] \<Rightarrow> j
      | row # _ \<Rightarrow>
          let j = (if \<not> truthy_str (county j)
                   then j\<lparr>county := intake_county row\<rparr> else j);
              j = j\<lparr>enrollment_status := intake_enrollment_status row,
                     enrollment_date := intake_submission_date row,
                     household_adults := intake_adults row,
                     household_children := intake_children row\<rparr>;
              j = (if \<not> truthy (household_size j)
                   then j\<lparr>household_size :=
                            py_add (py_or (household_adults j) (PyNum 1))
                                   (py_or (household_children j) (PyNum 2))\<rparr>
                   else j)
          in j)"

text \<open>
  \<^verbatim>\<open>
  if len(baseline_rec) > 0:
      row = baseline_rec.iloc[0]
      journey['baseline_date'] = parse_date(get_field(row, ['Submission Date']))
      journey['baseline_hourly_wage'] = get_numeric(row, [...])
      if journey.get('baseline_hourly_wage'):
          journey['baseline_monthly_income'] = journey['baseline_hourly_wage'] * 40 * 4.33
  \<close>
\<close>

definition from_baseline :: "baseline_row list \<Rightarrow> journey \<Rightarrow> journey" where
  "from_baseline baseline_rec j =
     (case baseline_rec of
        [] \<Rightarrow> j
      | row # _ \<Rightarrow>
          let j = j\<lparr>baseline_date := baseline_submission_date row,
                     baseline_hourly_wage := baseline_wage row\<rparr>;
              j = (if truthy (baseline_hourly_wage j)
                   then j\<lparr>baseline_monthly_income :=
                            py_mul (py_mul (baseline_hourly_wage j) 40) 4.33\<rparr>
                   else j)
          in j)"

text \<open>
  \<open>quarterly_recs.sort_values('_date')\<close>: ascending by the parsed date, the rows
  without a date last. pandas does not promise an order among rows with equal dates; the
  model keeps them in table order.
\<close>

definition sort_values_date :: "quarterly_row list \<Rightarrow> quarterly_row list" where
  "sort_values_date recs =
     sort_key (\<lambda>r. the (quarterly_submission_date r))
       (filter (\<lambda>r. quarterly_submission_date r \<noteq> None) recs)
     @ filter (\<lambda>r. quarterly_submission_date r = None) recs"

text \<open>
  \<^verbatim>\<open>
  if len(quarterly_recs) > 0:
      quarterly_recs = quarterly_recs.sort_values('_date')
      first_q = quarterly_recs.iloc[0]
      journey['first_quarterly_date'] = parse_date(get_field(first_q, ['Submission Date']))
      journey['first_quarterly_monthly_income'] = get_numeric(first_q, [...])
      last_q = quarterly_recs.iloc[-1]
      journey['last_quarterly_date'] = parse_date(get_field(last_q, ['Submission Date']))
      journey['last_quarterly_monthly_income'] = get_numeric(last_q, [...])
      journey['quarterly_count'] = len(quarterly_recs)
  \<close>
\<close>

definition from_quarterly :: "quarterly_row list \<Rightarrow> journey \<Rightarrow> journey" where
  "from_quarterly quarterly_recs j =
     (if length quarterly_recs > 0 then
        let quarterly_recs = sort_values_date quarterly_recs;
            first_q = hd quarterly_recs;
            last_q = last quarterly_recs
        in j\<lparr>first_quarterly_date := quarterly_submission_date first_q,
              first_quarterly_monthly_income := quarterly_income first_q,
              last_quarterly_date := quarterly_submission_date last_q,
              last_quarterly_monthly_income := quarterly_income last_q,
              quarterly_count := Some (length quarterly_recs)\<rparr>
      else j)"

text \<open>
  \<^verbatim>\<open>
  if not journey.get('income_change_annual'):
      journey['enrollment_monthly_income'] =
          journey.get('first_quarterly_monthly_income') or journey.get('baseline_monthly_income')
      journey['current_monthly_income'] =
          journey.get('last_quarterly_monthly_income') or journey.get('first_quarterly_monthly_income')
      if journey.get('enrollment_monthly_income') and journey.get('current_monthly_income'):
          journey['income_change_monthly'] =
              journey['current_monthly_income'] - journey['enrollment_monthly_income']
          journey['income_change_annual'] = journey['income_change_monthly'] * 12
          journey['has_positive_income_change'] = (journey.get('income_change_annual') or 0) > 0
  \<close>
\<close>

definition fallback_income :: "journey \<Rightarrow> journey" where
  "fallback_income j =
     (if \<not> truthy (income_change_annual j) then
        let j = j\<lparr>enrollment_monthly_income :=
                     py_or (first_quarterly_monthly_income j) (baseline_monthly_income j)\<rparr>;
            j = j\<lparr>current_monthly_income :=
                     py_or (last_quarterly_monthly_income j)
                           (first_quarterly_monthly_income j)\<rparr>
        in if truthy (enrollment_monthly_income j) \<and> truthy (current_monthly_income j) then
             let j = j\<lparr>income_change_monthly :=
                          py_sub (current_monthly_income j) (enrollment_monthly_income j)\<rparr>;
                 j = j\<lparr>income_change_annual := py_mul (income_change_monthly j) 12\<rparr>
             in j\<lparr>has_positive_income_change :=
                     Some (py_gt (py_or (income_change_annual j) (PyNum 0)) 0)\<rparr>
           else j
      else j)"

text \<open>
  \<^verbatim>\<open>
  if not journey.get('current_fpl'):
      hh_size = journey.get('household_size') or 3
      if journey.get('enrollment_monthly_income'):
          journey['enrollment_fpl'] =
              calculate_fpl_pct(journey['enrollment_monthly_income'] * 12, hh_size)
      if journey.get('current_monthly_income'):
          journey['current_fpl'] =
              calculate_fpl_pct(journey['current_monthly_income'] * 12, hh_size)
      if journey.get('enrollment_fpl') and journey.get('current_fpl'):
          journey['fpl_change'] = journey['current_fpl'] - journey['enrollment_fpl']
  \<close>
\<close>

definition fallback_fpl :: "journey \<Rightarrow> journey" where
  "fallback_fpl j =
     (if \<not> truthy (current_fpl j) then
        let hh_size = py_or (household_size j) (PyNum 3);
            j = (if truthy (enrollment_monthly_income j)
                 then j\<lparr>enrollment_fpl :=
                          calculate_fpl_pct (py_mul (enrollment_monthly_income j) 12) hh_size\<rparr>
                 else j);
            j = (if truthy (current_monthly_income j)
                 then j\<lparr>current_fpl :=
                          calculate_fpl_pct (py_mul (current_monthly_income j) 12) hh_size\<rparr>
                 else j)
        in if truthy (enrollment_fpl j) \<and> truthy (current_fpl j)
           then j\<lparr>fpl_change := py_sub (current_fpl j) (enrollment_fpl j)\<rparr>
           else j
      else j)"

text \<open>
  \<^verbatim>\<open>
  enrollment_date = journey.get('enrollment_date') or journey.get('baseline_date')
                    or journey.get('first_quarterly_date')
  last_date = journey.get('last_quarterly_date') or journey.get('first_quarterly_date')
              or journey.get('baseline_date')
  if enrollment_date and last_date:
      journey['days_in_program'] = (last_date - enrollment_date).days
  else:
      journey['days_in_program'] = None
  \<close>
\<close>

definition set_days_in_program :: "journey \<Rightarrow> journey" where
  "set_days_in_program j =
     (let enrollment_date_v =
            first_available [enrollment_date j, baseline_date j, first_quarterly_date j];
          last_date =
            first_available [last_quarterly_date j, first_quarterly_date j, baseline_date j]
      in case (enrollment_date_v, last_date) of
           (Some e, Some l) \<Rightarrow> j\<lparr>days_in_program := Some (timedelta_days l e)\<rparr>
         | _ \<Rightarrow> j\<lparr>days_in_program := None\<rparr>)"

text \<open>
  \<^verbatim>\<open>
  journey['is_graduate'] = is_confirmed_graduate or (journey.get('current_fpl') or 0) >= 225
  if 'has_positive_income_change' not in journey:
      journey['has_positive_income_change'] = (journey.get('income_change_annual') or 0) > 0
  journey['has_positive_fpl_change'] = (journey.get('fpl_change') or 0) > 0
  fpl = journey.get('current_fpl')
  if is_confirmed_graduate:
      journey['cliff_tier'] = "graduated"
  elif pd.isna(fpl) or fpl is None:
      journey['cliff_tier'] = "unknown"
  elif fpl >= 225: ... "graduated"
  elif fpl >= 185: ... "near_graduation"
  elif fpl >= 150: ... "deep_cliff"
  elif fpl >= 130: ... "liheap_childcare"
  elif fpl >= 100: ... "snap_tenncare"
  elif fpl >= 50:  ... "deep_poverty"
  else:            ... "extreme_poverty"
  \<close>
\<close>

definition classify_cliff_tier :: "bool \<Rightarrow> pyval \<Rightarrow> string" where
  "classify_cliff_tier is_confirmed_graduate fpl =
     (if is_confirmed_graduate then ''graduated''
      else if isna fpl \<or> fpl = PyNone then ''unknown''
      else if py_ge fpl 225 then ''graduated''
      else if py_ge fpl 185 then ''near_graduation''
      else if py_ge fpl 150 then ''deep_cliff''
      else if py_ge fpl 130 then ''liheap_childcare''
      else if py_ge fpl 100 then ''snap_tenncare''
      else if py_ge fpl 50 then ''deep_poverty''
      else ''extreme_poverty'')"

definition outcome_classifications :: "bool \<Rightarrow> journey \<Rightarrow> journey" where
  "outcome_classifications is_confirmed_graduate j =
     (let j = j\<lparr>is_graduate :=
                  Some (is_confirmed_graduate \<or> py_ge (py_or (current_fpl j) (PyNum 0)) 225)\<rparr>;
          j = (if has_positive_income_change j = None
               then j\<lparr>has_positive_income_change :=
                        Some (py_gt (py_or (income_change_annual j) (PyNum 0)) 0)\<rparr>
               else j);
          j = j\<lparr>has_positive_fpl_change :=
                  Some (py_gt (py_or (fpl_change j) (PyNum 0)) 0)\<rparr>
      in j\<lparr>cliff_tier := Some (classify_cliff_tier is_confirmed_graduate (current_fpl j))\<rparr>)"

text \<open>
  The whole function. \<open>graduate_ids\<close> defaults to \<open>None\<close>; the Empower table is passed
  by every caller.
  \<^verbatim>\<open>
  journey = {'participant_id': int(pid)}
  is_confirmed_graduate = graduate_ids is not None and pid in graduate_ids
  intake_rec = intake[intake['participant_id'] == pid]
  ...
  journey['total_assessments'] = ((1 if len(baseline_rec) > 0 else 0)
                                  + len(quarterly_recs) + len(col_recs))
  \<close>
\<close>

definition is_confirmed :: "int \<Rightarrow> int set option \<Rightarrow> bool" where
  "is_confirmed pid graduate_ids =
     (case graduate_ids of None \<Rightarrow> False | Some ids \<Rightarrow> pid \<in> ids)"

definition build_single_journey ::
  "int \<Rightarrow> intake_row list \<Rightarrow> baseline_row list \<Rightarrow> quarterly_row list \<Rightarrow> col_row list
     \<Rightarrow> empower_row list \<Rightarrow> int set option \<Rightarrow> journey" where
  "build_single_journey pid intake baseline quarterly change_of_life empower graduate_ids =
     (let is_confirmed_graduate = is_confirmed pid graduate_ids;
          intake_rec = filter (\<lambda>r. id_matches pid (intake_participant_id r)) intake;
          baseline_rec = filter (\<lambda>r. id_matches pid (baseline_participant_id r)) baseline;
          quarterly_recs = filter (\<lambda>r. id_matches pid (quarterly_participant_id r)) quarterly;
          col_recs = filter (\<lambda>r. id_matches pid (col_participant_id r)) change_of_life;
          empower_rec = filter (\<lambda>r. id_matches pid (emp_participant_id r)) empower;
          j = new_journey pid;
          j = from_empower empower_rec j;
          j = from_intake intake_rec j;
          j = from_baseline baseline_rec j;
          j = from_quarterly quarterly_recs j;
          j = fallback_income j;
          j = fallback_fpl j;
          j = set_days_in_program j;
          j = outcome_classifications is_confirmed_graduate j
      in j\<lparr>total_assessments :=
             Some ((if baseline_rec \<noteq> [] then 1 else 0)
                   + length quarterly_recs + length col_recs)\<rparr>)"

section \<open>ROI results\<close>

text \<open>
  The ROI functions return nested dicts. A dict is the list of its entries in insertion
  order. A float is a real number or the value \<open>float('inf')\<close>, which
  \<open>calculate_tier1_conservative\<close> uses for an undefined ratio. A division by a variable
  raises \<open>ZeroDivisionError\<close> on a zero divisor, so every such division is
  \<open>py_truediv\<close> and every function that divides returns an error or a dict; a division
  by a non-zero constant is written \<open>/\<close>. Indexing a table by a column it does not
  have raises \<open>KeyError\<close>. The numeric arguments of the functions are
  real numbers, so an entry that repeats or rounds an argument is a \<open>PFloat\<close>; an entry
  that the source computes on integers, or sets to the literal \<open>0\<close>, is a \<open>PInt\<close>
  (\<open>round\<close> of an \<open>int\<close> is that \<open>int\<close>).
\<close>

datatype py_error = ZeroDivisionError | KeyError

datatype pyfloat = Fin real | PosInf

datatype pyobj =
    PStr string
  | PInt int
  | PFloat pyfloat
  | PList "pyobj list"
  | PDict "(string \<times> pyobj) list"

definition py_truediv :: "real \<Rightarrow> real \<Rightarrow> py_error + real" where
  "py_truediv a b = (if b = 0 then Inl ZeroDivisionError else Inr (a / b))"

definition and_then :: "py_error + 'a \<Rightarrow> ('a \<Rightarrow> py_error + 'b) \<Rightarrow> py_error + 'b" where
  "and_then r f = (case r of Inl e \<Rightarrow> Inl e | Inr v \<Rightarrow> f v)"

text \<open>\<open>d[k]\<close> on a result, \<open>None\<close> when the object is not a dict or has no such key.\<close>

fun dget :: "string \<Rightarrow> pyobj \<Rightarrow> pyobj option" where
  "dget k (PDict kvs) = map_of kvs k"
| "dget k _ = None"


text \<open>
  Rounding to a whole number, a tie to the even neighbour.
\<close>

definition round_half_even :: "real \<Rightarrow> int" where
  "round_half_even x =
     (let f = \<lfloor>x\<rfloor>; d = x - real_of_int f
      in if d < 1 / 2 then f
         else if d > 1 / 2 then f + 1
         else if even f then f else f + 1)"

text \<open>
  \<open>round(x, n)\<close> and \<open>f"{x:.2f}"\<close> act on the double that holds \<open>x\<close>, not on the
  real number: both round the exact value of the double to the decimals asked for, a tie
  to the even neighbour. A quotient such as 107000 / 40000, which is 2.675 as a real
  number, is held by a double just below 2.675 and rounds to 2.67. So the double is
  modelled where a value is rounded to decimals: \<open>to_double x\<close> is the double nearest
  to \<open>x\<close>, a tie to the even significand, with 53 significant bits.
  \<open>binary_exponent\<close> finds the power of two at or below a positive number; its first
  argument bounds the number of steps, and 2200 of them cover the exponent range of a
  double. Overflow and subnormal numbers are not modelled, and the rounded result is
  kept as the decimal number itself.
\<close>

fun binary_exponent :: "nat \<Rightarrow> real \<Rightarrow> int" where
  "binary_exponent 0 x = 0"
| "binary_exponent (Suc fuel) x =
     (if 2 \<le> x then binary_exponent fuel (x / 2) + 1
      else if x < 1 then binary_exponent fuel (x * 2) - 1
      else 0)"

definition to_double :: "real \<Rightarrow> real" where
  "to_double x =
     (if x = 0 then 0
      else let e = binary_exponent 2200 \<bar>x\<bar>
           in real_of_int (round_half_even (x * 2 powi (52 - e))) * 2 powi (e - 52))"



definition py_round :: "real \<Rightarrow> nat \<Rightarrow> real" where
  "py_round x n = real_of_int (round_half_even (to_double x * 10 ^ n)) / 10 ^ n"

text \<open>Decimal printing, for \<open>f"{pct}pct"\<close> and \<open>f"{x:.2f}"\<close>.\<close>

definition digit_char :: "nat \<Rightarrow> char" where
  "digit_char n = ''0123456789'' ! n"

function show_nat :: "nat \<Rightarrow> string" where
  "show_nat n =
     (if n < 10 then [digit_char n] else show_nat (n div 10) @ [digit_char (n mod 10)])"
  by pat_completeness auto
termination
  by (relation "measure id") auto

declare show_nat.simps [simp del]

definition format_2f :: "real \<Rightarrow> string" where
  "format_2f x =
     (let r = nat (round_half_even (\<bar>to_double x\<bar> * 100))
      in (if x < 0 then ''-'' else [])
         @ show_nat (r div 100) @ ''.''
         @ [digit_char ((r mod 100) div 10), digit_char (r mod 10)])"

section \<open>ROI constants\<close>

text \<open>
  \<open>PROGRAM_INVESTMENT\<close> of \<open>src/analytics/metrics.py\<close> and the tables
  \<open>TAX_RATES\<close>, \<open>BENEFITS_VALUES\<close>, \<open>PROJECTION_ASSUMPTIONS\<close> of
  \<open>src/analytics/roi.py\<close>, one constant for each entry.
\<close>

definition PROGRAM_INVESTMENT :: real where "PROGRAM_INVESTMENT = 25000000"

definition fica_total :: real where "fica_total = 0.153"
definition federal_income_effective :: real where "federal_income_effective = 0.10"
definition state_income :: real where "state_income = 0.0"
definition sales_tax_rate :: real where "sales_tax_rate = 0.08"
definition sales_tax_spending_share :: real where "sales_tax_spending_share = 0.60"

definition tenncare_adult :: int where "tenncare_adult = 6000"
definition tenncare_child :: int where "tenncare_child = 3000"
definition snap_household :: int where "snap_household = 5500"
definition tanf_cash :: int where "tanf_cash = 2400"
definition childcare_full :: int where "childcare_full = 4000"
definition childcare_reduced :: int where "childcare_reduced = 2000"

definition discount_rate :: real where "discount_rate = 0.03"
definition default_working_years :: int where "default_working_years = 25"
definition chetty_coefficient :: real where "chetty_coefficient = 0.013"
definition avg_children_per_family :: real where "avg_children_per_family = 2.0"

section \<open>The four ROI tiers\<close>

text \<open>
  \<open>calculate_tier1_conservative\<close>:
  \<^verbatim>\<open>
  annual_return = annual_wage_gains / investment if investment > 0 else 0
  break_even = investment / annual_wage_gains if annual_wage_gains > 0 else float('inf')
  cost_per_dollar = investment / annual_wage_gains if annual_wage_gains > 0 else float('inf')
  return { ...
      "metrics": {
          "documented_annual_wage_gains": round(annual_wage_gains, 0),
          "annual_return_per_dollar_invested": round(annual_return, 4),
          "break_even_years_undiscounted":
              round(break_even, 2) if break_even != float('inf') else "N/A",
          "cost_per_dollar_income_generated":
              round(cost_per_dollar, 2) if cost_per_dollar != float('inf') else "N/A" },
      "benchmarks": { ...
          "euc_comparison":
              f"EUC: ${cost_per_dollar:.2f}" if cost_per_dollar != float('inf') else "N/A" },
      "caveats": [ ... ] }
  \<close>
  The rounding of \<open>annual_return\<close> is done where the value is computed, since the
  branch without a division yields the integer \<open>0\<close>.
\<close>

definition div_or_inf :: "real \<Rightarrow> real \<Rightarrow> py_error + pyfloat" where
  "div_or_inf investment annual_wage_gains =
     (if annual_wage_gains > 0
      then and_then (py_truediv investment annual_wage_gains) (\<lambda>q. Inr (Fin q))
      else Inr PosInf)"

definition round_or_na :: "pyfloat \<Rightarrow> nat \<Rightarrow> pyobj" where
  "round_or_na x n = (case x of Fin v \<Rightarrow> PFloat (Fin (py_round v n)) | PosInf \<Rightarrow> PStr ''N/A'')"

definition calculate_tier1_conservative :: "real \<Rightarrow> real \<Rightarrow> py_error + pyobj" where
  "calculate_tier1_conservative annual_wage_gains investment =
     and_then (if investment > 0
               then and_then (py_truediv annual_wage_gains investment)
                      (\<lambda>q. Inr (PFloat (Fin (py_round q 4))))
               else Inr (PInt 0)) (\<lambda>annual_return_rounded.
     and_then (div_or_inf investment annual_wage_gains) (\<lambda>break_even.
     and_then (div_or_inf investment annual_wage_gains) (\<lambda>cost_per_dollar.
     Inr (PDict
      [(''methodology'', PStr ''Measured annual wage gains only. No projections.''),
       (''appropriate_audience'',
          PStr ''Skeptical funders, evaluators, legislators wanting floor estimates''),
       (''investment_denominator'', PFloat (Fin investment)),
       (''metrics'', PDict
          [(''documented_annual_wage_gains'', PFloat (Fin (py_round annual_wage_gains 0))),
           (''annual_return_per_dollar_invested'', annual_return_rounded),
           (''break_even_years_undiscounted'', round_or_na break_even 2),
           (''cost_per_dollar_income_generated'', round_or_na cost_per_dollar 2)]),
       (''benchmarks'', PDict
          [(''project_quest'', PDict
              [(''cost_per_dollar'', PFloat (Fin 0.30)),
               (''note'', PStr ''14-year RCT follow-up'')]),
           (''year_up'', PDict
              [(''cost_per_dollar'', PFloat (Fin 1.30)),
               (''note'', PStr ''~$30K/participant'')]),
           (''euc_comparison'',
              (case cost_per_dollar of
                 Fin c \<Rightarrow> PStr (''EUC: $'' @ format_2f c)
               | PosInf \<Rightarrow> PStr ''N/A''))]),
       (''caveats'', PList
          [PStr ''Assumes all measured wage gains persist for at least 1 year'',
           PStr ''Does not account for what would have happened without program (no RCT yet)'',
           PStr ''Uses full $25M investment as denominator, not spent-to-date''])]))))"

text \<open>
  \<open>calculate_tier2_taxpayer\<close>. \<open>fpl_tier_counts\<close> is a dict from tier name to count,
  read with \<open>fpl_tier_counts.get(name, 0)\<close>:
  \<^verbatim>\<open>
  grad_count = fpl_tier_counts.get("graduated", 0)
  grad_savings = grad_count * (tenncare_adult + snap_household + tanf_cash + childcare_full)
  tier2_count = fpl_tier_counts.get("near_graduation", 0)
  tier2_savings = tier2_count * (snap_household + tanf_cash + childcare_reduced)
  tier3_count = fpl_tier_counts.get("working_progress", 0)
  tier3_savings = tier3_count * (tanf_cash + snap_household * 0.5)
  tier4_count = fpl_tier_counts.get("snap_cliff", 0)
  tier4_savings = tier4_count * 1000
  total_benefits = grad_savings + tier2_savings + tier3_savings + tier4_savings
  total_taxpayer = total_tax + total_benefits
  \<close>
\<close>

definition tier_count :: "(string \<times> int) list \<Rightarrow> string \<Rightarrow> int" where
  "tier_count fpl_tier_counts name =
     (case map_of fpl_tier_counts name of None \<Rightarrow> 0 | Some n \<Rightarrow> n)"

definition grad_savings :: "(string \<times> int) list \<Rightarrow> int" where
  "grad_savings fpl_tier_counts =
     tier_count fpl_tier_counts ''graduated''
       * (tenncare_adult + snap_household + tanf_cash + childcare_full)"

definition tier2_savings :: "(string \<times> int) list \<Rightarrow> int" where
  "tier2_savings fpl_tier_counts =
     tier_count fpl_tier_counts ''near_graduation''
       * (snap_household + tanf_cash + childcare_reduced)"

definition tier3_savings :: "(string \<times> int) list \<Rightarrow> real" where
  "tier3_savings fpl_tier_counts =
     real_of_int (tier_count fpl_tier_counts ''working_progress'')
       * (real_of_int tanf_cash + real_of_int snap_household * 0.5)"

definition tier4_savings :: "(string \<times> int) list \<Rightarrow> int" where
  "tier4_savings fpl_tier_counts = tier_count fpl_tier_counts ''snap_cliff'' * 1000"

definition total_benefits :: "(string \<times> int) list \<Rightarrow> real" where
  "total_benefits fpl_tier_counts =
     real_of_int (grad_savings fpl_tier_counts) + real_of_int (tier2_savings fpl_tier_counts)
       + tier3_savings fpl_tier_counts + real_of_int (tier4_savings fpl_tier_counts)"

definition calculate_tier2_taxpayer ::
  "real \<Rightarrow> (string \<times> int) list \<Rightarrow> real \<Rightarrow> py_error + pyobj" where
  "calculate_tier2_taxpayer annual_wage_gains fpl_tier_counts investment =
     (let fica = annual_wage_gains * fica_total;
          federal = annual_wage_gains * federal_income_effective;
          state = annual_wage_gains * state_income;
          sales = annual_wage_gains * sales_tax_rate * sales_tax_spending_share;
          total_tax = fica + federal + state + sales;
          total_taxpayer = total_tax + total_benefits fpl_tier_counts
      in
     and_then (if investment > 0
               then and_then (py_truediv total_taxpayer investment)
                      (\<lambda>q. Inr (PFloat (Fin (py_round q 4))))
               else Inr (PInt 0)) (\<lambda>annual_return_per_dollar.
     and_then (if total_taxpayer > 0
               then and_then (py_truediv investment total_taxpayer)
                      (\<lambda>q. Inr (PFloat (Fin (py_round q 1))))
               else Inr (PStr ''N/A'')) (\<lambda>break_even_years.
     Inr (PDict
      [(''methodology'',
          PStr ''Tax revenue from wage gains + estimated benefits cost avoidance by FPL tier''),
       (''appropriate_audience'',
          PStr ''State legislators, TANF administrators, taxpayer advocates''),
       (''investment_denominator'', PFloat (Fin investment)),
       (''tax_revenue'', PDict
          [(''fica_employer_employee'', PFloat (Fin (py_round fica 0))),
           (''federal_income_effective_10pct'', PFloat (Fin (py_round federal 0))),
           (''state_income_tn_none'', PFloat (Fin (py_round state 0))),
           (''sales_tax_on_spending'', PFloat (Fin (py_round sales 0))),
           (''total_annual'', PFloat (Fin (py_round total_tax 0)))]),
       (''benefits_savings'', PDict
          [(''by_tier'', PDict
              [(''graduates_225plus'', PDict
                  [(''count'', PInt (tier_count fpl_tier_counts ''graduated'')),
                   (''per_family_savings'', PInt 17900),
                   (''total'', PInt (grad_savings fpl_tier_counts)),
                   (''benefits_exited'', PList
                      [PStr ''TennCare adult'', PStr ''SNAP'', PStr ''TANF cash'',
                       PStr ''Childcare subsidy''])]),
               (''tier2_150plus'', PDict
                  [(''count'', PInt (tier_count fpl_tier_counts ''near_graduation'')),
                   (''per_family_savings'', PInt 9900),
                   (''total'', PInt (tier2_savings fpl_tier_counts)),
                   (''benefits_exited'', PList
                      [PStr ''SNAP'', PStr ''TANF cash'', PStr ''Childcare (reduced)''])]),
               (''tier3_100plus'', PDict
                  [(''count'', PInt (tier_count fpl_tier_counts ''working_progress'')),
                   (''per_family_savings'', PInt 5150),
                   (''total'', PFloat (Fin (py_round (tier3_savings fpl_tier_counts) 0))),
                   (''benefits_exited'', PList
                      [PStr ''TANF cash'', PStr ''SNAP (reduced)''])]),
               (''tier4_improved'', PDict
                  [(''count'', PInt (tier_count fpl_tier_counts ''snap_cliff'')),
                   (''per_family_savings'', PInt 1000),
                   (''total'', PInt (tier4_savings fpl_tier_counts)),
                   (''benefits_exited'', PList [PStr ''SNAP (marginal reduction)''])])]),
           (''total_annual'', PFloat (Fin (py_round (total_benefits fpl_tier_counts) 0))),
           (''caveat'',
              PStr ''Estimates based on FPL thresholds, not tracked benefit terminations'')]),
       (''combined'', PDict
          [(''total_annual_taxpayer_benefit'', PFloat (Fin (py_round total_taxpayer 0))),
           (''annual_return_per_dollar'', annual_return_per_dollar),
           (''break_even_years'', break_even_years),
           (''ten_year_return_undiscounted'', PFloat (Fin (py_round (total_taxpayer * 10) 0)))]),
       (''caveats'', PList
          [PStr ''Benefits savings are ESTIMATES based on FPL thresholds'',
           PStr ''Actual savings depend on individual benefit receipt and recertification timing'',
           PStr ''Does not account for what would have happened without program'',
           PStr ''TN-specific benefit levels used (lower than national average)''])]))))"

text \<open>
  The wage-fade present value, written out twice in the source (tiers 3 and 4):
  \<^verbatim>\<open>
  pv_with_fade = (
      annual_wage_gains * ((1 - (1 + discount_rate) ** -5) / discount_rate) +
      annual_wage_gains * 0.8 * ((1 - (1 + discount_rate) ** -5) / discount_rate)
          / (1 + discount_rate) ** 5 +
      annual_wage_gains * 0.6 * ((1 - (1 + discount_rate) ** -15) / discount_rate)
          / (1 + discount_rate) ** 10)
  \<close>
\<close>

definition pv_with_fade :: "real \<Rightarrow> real" where
  "pv_with_fade annual_wage_gains =
     annual_wage_gains * ((1 - (1 + discount_rate) powi (- 5)) / discount_rate)
     + annual_wage_gains * 0.8 * ((1 - (1 + discount_rate) powi (- 5)) / discount_rate)
         / (1 + discount_rate) ^ 5
     + annual_wage_gains * 0.6 * ((1 - (1 + discount_rate) powi (- 15)) / discount_rate)
         / (1 + discount_rate) ^ 10"

text \<open>\<open>round(x / investment, 1) if investment > 0 else 0\<close>\<close>

definition ratio_or_zero :: "real \<Rightarrow> real \<Rightarrow> py_error + pyobj" where
  "ratio_or_zero x investment =
     (if investment > 0
      then and_then (py_truediv x investment) (\<lambda>q. Inr (PFloat (Fin (py_round q 1))))
      else Inr (PInt 0))"

text \<open>
  \<open>calculate_tier3_lifecycle\<close>:
  \<^verbatim>\<open>
  working_years = PROJECTION_ASSUMPTIONS["default_working_years"]
  discount_rate = PROJECTION_ASSUMPTIONS["discount_rate"]
  pv_factor = (1 - (1 + discount_rate) ** -working_years) / discount_rate
  lifetime_pv_full = annual_wage_gains * pv_factor
  \<close>
\<close>

definition calculate_tier3_lifecycle :: "real \<Rightarrow> real \<Rightarrow> py_error + pyobj" where
  "calculate_tier3_lifecycle annual_wage_gains investment =
     (let working_years = default_working_years;
          pv_factor = (1 - (1 + discount_rate) powi (- working_years)) / discount_rate;
          lifetime_pv_full = annual_wage_gains * pv_factor
      in
     and_then (ratio_or_zero lifetime_pv_full investment) (\<lambda>roi_full.
     and_then (ratio_or_zero (pv_with_fade annual_wage_gains) investment) (\<lambda>roi_fade.
     Inr (PDict
      [(''methodology'',
          PStr ''Annual wage gains projected over working lifetime with discount rate''),
       (''appropriate_audience'', PStr ''Workforce development funders, program comparison''),
       (''investment_denominator'', PFloat (Fin investment)),
       (''assumptions'', PDict
          [(''working_years_remaining'', PInt working_years),
           (''discount_rate'', PFloat (Fin discount_rate)),
           (''note'',
              PStr ''Age data not available; using 25 years as conservative estimate'')]),
       (''projections'', PDict
          [(''full_persistence'', PDict
              [(''lifetime_pv'', PFloat (Fin (py_round lifetime_pv_full 0))),
               (''roi_ratio'', roi_full),
               (''assumption'', PStr ''Wage gains persist unchanged for 25 years'')]),
           (''with_fade'', PDict
              [(''lifetime_pv'', PFloat (Fin (py_round (pv_with_fade annual_wage_gains) 0))),
               (''roi_ratio'', roi_fade),
               (''assumption'',
                  PStr ''Wage gains fade: 100% years 1-5, 80% years 6-10, 60% years 11-25'')])]),
       (''benchmarks'', PDict
          [(''project_quest'', PDict
              [(''lifetime_roi'', PStr ''2.34:1''),
               (''note'', PStr ''14-year RCT, $4,434/yr gains'')]),
           (''year_up'', PDict
              [(''lifetime_roi'', PStr ''2.46:1''),
               (''note'', PStr ''Social return on investment'')]),
           (''jeremiah_program'', PDict
              [(''lifetime_roi'', PStr ''4:1''),
               (''note'', PStr ''Wilder SROI methodology'')])]),
       (''caveats'', PList
          [PStr ''PROJECTION: Assumes wage gains persist; research shows effects often fade'',
           PStr ''Working years assumed at 25; actual varies by participant age'',
           PStr (''Without RCT, cannot claim causation'' @ [CHR 0xE2, CHR 0x80, CHR 0x94]
                 @ ''association only''),
           PStr ''Sensitivity analysis recommended for key assumptions''])]))))"

text \<open>
  \<open>calculate_tier4_intergenerational\<close>. The dict is built first; the last statement
  divides by the investment without a guard:
  \<^verbatim>\<open>
  total_children = int(total_families * avg_children)
  income_increase_thousands = avg_wage_gain / 1000
  assumed_child_baseline_earnings = 40000
  earnings_boost_per_child =
      assumed_child_baseline_earnings * chetty_coefficient * income_increase_thousands
  total_child_earnings_boost = earnings_boost_per_child * total_children
  child_working_years = 30
  years_until_work = 15
  pv_factor = (1 - (1 + discount_rate) ** -child_working_years) / discount_rate
  pv_factor_delayed = pv_factor / (1 + discount_rate) ** years_until_work
  intergenerational_pv = total_child_earnings_boost * pv_factor_delayed
  total_societal = pv_with_fade + intergenerational_pv
  result = { ... }
  if total_societal / investment > 10:
      result["red_flag"] = "WARNING: ROI >10:1 may indicate overclaiming. Verify assumptions."
  return result
  \<close>
\<close>

definition calculate_tier4_intergenerational ::
  "real \<Rightarrow> real \<Rightarrow> int \<Rightarrow> real \<Rightarrow> py_error + pyobj" where
  "calculate_tier4_intergenerational annual_wage_gains avg_wage_gain total_families investment =
     (let avg_children = avg_children_per_family;
          total_children = py_int (real_of_int total_families * avg_children);
          income_increase_thousands = avg_wage_gain / 1000;
          assumed_child_baseline_earnings = 40000;
          earnings_boost_per_child =
            assumed_child_baseline_earnings * chetty_coefficient * income_increase_thousands;
          total_child_earnings_boost = earnings_boost_per_child * real_of_int total_children;
          child_working_years = 30;
          years_until_work = 15;
          pv_factor = (1 - (1 + discount_rate) powi (- child_working_years)) / discount_rate;
          pv_factor_delayed = pv_factor / (1 + discount_rate) ^ years_until_work;
          intergenerational_pv = total_child_earnings_boost * pv_factor_delayed;
          total_societal = pv_with_fade annual_wage_gains + intergenerational_pv
      in
     and_then (ratio_or_zero total_societal investment) (\<lambda>societal_roi_ratio.
     (let result =
       [(''methodology'',
           PStr ''Includes research-based projections of child outcome improvements''),
        (''appropriate_audience'', PStr ''Visionary funders, long-term impact investors''),
        (''investment_denominator'', PFloat (Fin investment)),
        (''research_basis'',
           PStr ''Chetty et al.: $1,000 childhood income increase -> 1.3% higher adult earnings''),
        (''intergenerational'', PDict
           [(''total_children'', PInt total_children),
            (''avg_family_income_increase'', PFloat (Fin (py_round avg_wage_gain 0))),
            (''chetty_coefficient'', PFloat (Fin chetty_coefficient)),
            (''projected_earnings_boost_per_child_annual'',
               PFloat (Fin (py_round earnings_boost_per_child 0))),
            (''total_children_earnings_boost_annual'',
               PFloat (Fin (py_round total_child_earnings_boost 0))),
            (''lifetime_pv_discounted'', PFloat (Fin (py_round intergenerational_pv 0)))]),
        (''combined_societal'', PDict
           [(''adult_lifecycle_pv'', PFloat (Fin (py_round (pv_with_fade annual_wage_gains) 0))),
            (''intergenerational_pv'', PFloat (Fin (py_round intergenerational_pv 0))),
            (''total_societal_pv'', PFloat (Fin (py_round total_societal 0))),
            (''societal_roi_ratio'', societal_roi_ratio)]),
        (''caveats'', PList
           [PStr (''HIGHLY SPECULATIVE: Intergenerational effects are research-based ''
                  @ ''projections, not measured''),
            PStr (''Chetty research based on different populations; applicability to ''
                  @ ''rural TN uncertain''),
            PStr ''Effects won't be observable for 15-20 years'',
            PStr ''Represents potential, not proven impact'',
            PStr (''Should not be primary ROI cited; use for 'comprehensive potential' ''
                  @ ''framing'')])]
      in
     and_then (py_truediv total_societal investment) (\<lambda>ratio.
     Inr (PDict
       (if ratio > 10
        then result @ [(''red_flag'',
               PStr ''WARNING: ROI >10:1 may indicate overclaiming. Verify assumptions.'')]
        else result))))))"

text \<open>
  \<open>calculate_sensitivity_analysis\<close>. The attribution scenarios are a loop over
  \<open>[100, 70, 50, 30]\<close>:
  \<^verbatim>\<open>
  for pct in [100, 70, 50, 30]:
      attributed = annual_wage_gains * (pct / 100)
      roi = attributed / investment * 25 if investment > 0 else 0
      attribution[f"{pct}pct"] = {
          "attributed_annual_gains": round(attributed, 0),
          "implied_lifecycle_roi": round(roi, 1) }
  \<close>
\<close>

fun attribution_scenarios :: "real \<Rightarrow> real \<Rightarrow> nat list \<Rightarrow> py_error + (string \<times> pyobj) list" where
  "attribution_scenarios annual_wage_gains investment [] = Inr []"
| "attribution_scenarios annual_wage_gains investment (pct # pcts) =
     (let attributed = annual_wage_gains * (real pct / 100)
      in
     and_then (if investment > 0
               then and_then (py_truediv attributed investment)
                      (\<lambda>q. Inr (PFloat (Fin (py_round (q * 25) 1))))
               else Inr (PInt 0)) (\<lambda>roi_rounded.
     and_then (attribution_scenarios annual_wage_gains investment pcts) (\<lambda>rest.
     Inr ((show_nat pct @ ''pct'', PDict
            [(''attributed_annual_gains'', PFloat (Fin (py_round attributed 0))),
             (''implied_lifecycle_roi'', roi_rounded)]) # rest))))"

definition calculate_sensitivity_analysis :: "real \<Rightarrow> real \<Rightarrow> py_error + pyobj" where
  "calculate_sensitivity_analysis annual_wage_gains investment =
     and_then (attribution_scenarios annual_wage_gains investment [100, 70, 50, 30])
       (\<lambda>attribution.
     and_then (ratio_or_zero (annual_wage_gains * 25) investment) (\<lambda>roi_full.
     and_then (ratio_or_zero (annual_wage_gains * 15) investment) (\<lambda>roi_moderate.
     and_then (ratio_or_zero (annual_wage_gains * 8) investment) (\<lambda>roi_rapid.
     (let persistence =
        [(''full'', PDict
            [(''description'', PStr ''100% persistence, 25 years''),
             (''lifetime_value'', PFloat (Fin (py_round (annual_wage_gains * 25) 0))),
             (''roi_ratio'', roi_full)]),
         (''moderate_fade'', PDict
            [(''description'', PStr ''Fade to 60% by year 10''),
             (''lifetime_value'', PFloat (Fin (py_round (annual_wage_gains * 15) 0))),
             (''roi_ratio'', roi_moderate)]),
         (''rapid_fade'', PDict
            [(''description'', PStr ''Fade to 30% by year 5''),
             (''lifetime_value'', PFloat (Fin (py_round (annual_wage_gains * 8) 0))),
             (''roi_ratio'', roi_rapid)])];
          denominator =
        [(''full_25m'', PDict
            [(''value'', PInt 25000000),
             (''roi_ratio'', PFloat (Fin (py_round (annual_wage_gains * 25 / 25000000) 1)))]),
         (''annual_program_cost'', PDict
            [(''value'', PInt 6000000),
             (''roi_ratio'', PFloat (Fin (py_round (annual_wage_gains * 25 / 6000000) 1)))]),
         (''marginal_per_family'', PDict
            [(''value'', PInt 7000),
             (''roi_ratio'',
                PFloat (Fin (py_round ((annual_wage_gains / 862) * 25 / 7000) 1))),
             (''note'', PStr ''Useful for marginal cost analysis'')])]
      in
     Inr (PDict
      [(''methodology'', PStr ''Varies key assumptions to show range of outcomes''),
       (''attribution'', PDict
          [(''scenarios'', PDict attribution),
           (''note'',
              PStr (''RCT will reveal actual attribution; Building Nebraska Families ''
                    @ ''showed 0% attribution''))]),
       (''wage_persistence'', PDict
          [(''scenarios'', PDict persistence),
           (''note'',
              PStr ''Research shows workforce gains often fade; long-term follow-up rare'')]),
       (''denominator'', PDict
          [(''scenarios'', PDict denominator),
           (''recommendation'',
              PStr ''Use $25M for consistency; note if different denominator used'')])]))))))"

section \<open>The full ROI analysis\<close>

text \<open>
  \<open>Series.value_counts().to_dict()\<close>: each distinct non-missing value with the number
  of rows holding it.
\<close>

definition value_counts :: "string option list \<Rightarrow> (string \<times> int) list" where
  "value_counts col =
     (let present = List.map_filter (\<lambda>v. v) col
      in map (\<lambda>k. (k, int (count_list present k))) (remdups present))"

text \<open>
  The journey table is a data frame with one row for each journey dict and one column
  for each key that some dict has (\<open>pd.DataFrame(journeys)\<close>). The key
  \<open>income_change_annual\<close> is only ever assigned a float, so a journey has it exactly
  when the field is not \<open>None\<close>, and a table without the column is a list of journeys
  that all have \<open>None\<close> there. That is also the table read back from the file of
  \<open>save_participant_journeys\<close> when the column was blank for every participant, since
  that function drops such a column before writing.
\<close>

definition has_wage_column :: "journey list \<Rightarrow> bool" where
  "has_wage_column journeys = list_ex (\<lambda>j. income_change_annual j \<noteq> PyNone) journeys"

text \<open>
  \<open>calculate_full_roi\<close>, on the branch taken when the journey table is present
  (\<open>"journeys" in data\<close>). Its first statement indexes the column
  \<open>income_change_annual\<close> and raises \<open>KeyError\<close> when the table has none; every
  journey has the key \<open>cliff_tier\<close>.
  \<^verbatim>\<open>
  valid_wages = journeys[journeys['income_change_annual'].notna()]
  positive_changes = valid_wages[valid_wages['income_change_annual'] > 0]
  total_wage_gains = positive_changes['income_change_annual'].sum()
  positive_count = len(positive_changes)
  avg_wage_gain = positive_changes['income_change_annual'].mean() if positive_count > 0 else 0
  total_families = len(journeys)
  fpl_tier_counts = journeys['cliff_tier'].value_counts().to_dict()
  tier1 = calculate_tier1_conservative(total_wage_gains, PROGRAM_INVESTMENT)
  tier2 = calculate_tier2_taxpayer(total_wage_gains, fpl_tier_counts, PROGRAM_INVESTMENT)
  tier3 = calculate_tier3_lifecycle(total_wage_gains, PROGRAM_INVESTMENT)
  tier4 = calculate_tier4_intergenerational(
      total_wage_gains, avg_wage_gain, total_families, PROGRAM_INVESTMENT)
  sensitivity = calculate_sensitivity_analysis(total_wage_gains, PROGRAM_INVESTMENT)
  \<close>
  Of the returned dict the model keeps the entries computed by the tier functions and the
  tier counts; the timestamps, the data-quality counts, the summary strings and the
  restated constants are left out.
\<close>

definition positive_changes :: "journey list \<Rightarrow> real list" where
  "positive_changes journeys =
     List.map_filter
       (\<lambda>j. case income_change_annual j of
               PyNum x \<Rightarrow> if x > 0 then Some x else None
             | _ \<Rightarrow> None)
       journeys"

definition fpl_tier_counts_of :: "journey list \<Rightarrow> (string \<times> int) list" where
  "fpl_tier_counts_of journeys = value_counts (map cliff_tier journeys)"

definition calculate_full_roi :: "journey list \<Rightarrow> py_error + pyobj" where
  "calculate_full_roi journeys =
     (if \<not> has_wage_column journeys then Inl KeyError
      else
      let total_wage_gains = sum_list (positive_changes journeys);
          positive_count = length (positive_changes journeys);
          avg_wage_gain =
            (if positive_count > 0 then total_wage_gains / real positive_count else 0);
          total_families = int (length journeys);
          fpl_tier_counts = fpl_tier_counts_of journeys
      in
     and_then (calculate_tier1_conservative total_wage_gains PROGRAM_INVESTMENT) (\<lambda>tier1.
     and_then (calculate_tier2_taxpayer total_wage_gains fpl_tier_counts PROGRAM_INVESTMENT)
       (\<lambda>tier2.
     and_then (calculate_tier3_lifecycle total_wage_gains PROGRAM_INVESTMENT) (\<lambda>tier3.
     and_then (calculate_tier4_intergenerational total_wage_gains avg_wage_gain total_families
                 PROGRAM_INVESTMENT) (\<lambda>tier4.
     and_then (calculate_sensitivity_analysis total_wage_gains PROGRAM_INVESTMENT)
       (\<lambda>sensitivity.
     Inr (PDict
      [(''fpl_distribution'', PDict (map (\<lambda>(k, n). (k, PInt n)) fpl_tier_counts)),
       (''tier1_conservative'', tier1),
       (''tier2_taxpayer'', tier2),
       (''tier3_lifecycle'', tier3),
       (''tier4_intergenerational'', tier4),
       (''sensitivity_analysis'', sensitivity)])))))))"

text \<open>
  The tier names of the other branch, \<open>categorize_fpl\<close> inside
  \<open>calculate_fpl_tiers_from_assessments\<close> of \<open>src/analytics/roi.py\<close>, which counts
  tiers from the assessments when there is no journey table:
  \<^verbatim>\<open>
  if pd.isna(fpl_pct): return "unknown"
  if fpl_pct >= 225: return "graduated"
  if fpl_pct >= 185: return "near_graduation"
  if fpl_pct >= 150: return "working_progress"
  if fpl_pct >= 130: return "snap_cliff"
  if fpl_pct >= 100: return "poverty_line"
  if fpl_pct >= 50: return "deep_poverty"
  return "extreme_poverty"
  \<close>
\<close>

definition categorize_fpl :: "pyval \<Rightarrow> string" where
  "categorize_fpl fpl_pct =
     (if isna fpl_pct then ''unknown''
      else if py_ge fpl_pct 225 then ''graduated''
      else if py_ge fpl_pct 185 then ''near_graduation''
      else if py_ge fpl_pct 150 then ''working_progress''
      else if py_ge fpl_pct 130 then ''snap_cliff''
      else if py_ge fpl_pct 100 then ''poverty_line''
      else if py_ge fpl_pct 50 then ''deep_poverty''
      else ''extreme_poverty'')"

section \<open>The Empower extract\<close>

text \<open>
  \<open>Series.median()\<close> skips the missing cells; it is \<open>nan\<close> when none is left, the
  middle value of the sorted rest when their number is odd, and the mean of the two middle
  values when it is even.
\<close>

definition non_null :: "pyval list \<Rightarrow> real list" where
  "non_null col = List.map_filter (\<lambda>v. case v of PyNum x \<Rightarrow> Some x | _ \<Rightarrow> None) col"

definition median :: "pyval list \<Rightarrow> pyval" where
  "median col =
     (let xs = sort (non_null col); n = length xs
      in if n = 0 then PyNaN
         else if odd n then PyNum (xs ! (n div 2))
         else PyNum ((xs ! (n div 2 - 1) + xs ! (n div 2)) / 2))"

text \<open>
  The format detection of \<open>process_empower_data\<close>, applied to the current-FPL column
  and then, with a median of its own, to the enrollment-FPL column. The column is the
  result of \<open>pd.to_numeric(..., errors='coerce')\<close>: numbers and \<open>nan\<close>.
  \<^verbatim>\<open>
  median_fpl = df['empower_fpl_current'].median()
  if pd.notna(median_fpl) and median_fpl < 10:
      df['empower_fpl_current'] = df['empower_fpl_current'] * 100
  \<close>
\<close>

definition py_lt :: "pyval \<Rightarrow> real \<Rightarrow> bool" where
  "py_lt v c = (case v of PyNum a \<Rightarrow> a < c | _ \<Rightarrow> False)"

definition detect_fpl_format :: "pyval list \<Rightarrow> pyval list" where
  "detect_fpl_format col =
     (let median_fpl = median col
      in if notna median_fpl \<and> py_lt median_fpl 10
         then map (\<lambda>v. py_mul v 100) col
         else col)"

text \<open>
  \<open>process_empower_data\<close> on the columns the claims are about. A source column is
  \<open>None\<close> when no column name matches; the processed column is then all \<open>nan\<close>
  (\<open>df[...] = np.nan\<close>), as long as the table.
\<close>

record empower_columns =
  fpl_current_col :: "pyval list"
  fpl_enrollment_col :: "pyval list"
  household_size_col :: "pyval list"

definition process_empower_data ::
  "nat \<Rightarrow> pyval list option \<Rightarrow> pyval list option \<Rightarrow> pyval list option \<Rightarrow> empower_columns" where
  "process_empower_data nrows fpl_cols enroll_fpl_cols hh_cols =
     \<lparr> fpl_current_col =
         (case fpl_cols of Some c \<Rightarrow> detect_fpl_format c | None \<Rightarrow> replicate nrows PyNaN),
       fpl_enrollment_col =
         (case enroll_fpl_cols of
            Some c \<Rightarrow> detect_fpl_format c | None \<Rightarrow> replicate nrows PyNaN),
       household_size_col =
         (case hh_cols of Some c \<Rightarrow> c | None \<Rightarrow> replicate nrows PyNaN) \<rparr>"

section \<open>Notions used by the properties\<close>

text \<open>Following a path of keys into a nested result.\<close>

fun dpath :: "string list \<Rightarrow> pyobj \<Rightarrow> pyobj option" where
  "dpath [] v = Some v"
| "dpath (k # ks) v = (case dget k v of None \<Rightarrow> None | Some w \<Rightarrow> dpath ks w)"

text \<open>
  The entry at a path of keys in what a call returned; \<open>None\<close> when the call raised
  or the result has no such entry.
\<close>

definition returned :: "string list \<Rightarrow> py_error + pyobj \<Rightarrow> pyobj option" where
  "returned ks res = (case res of Inl e \<Rightarrow> None | Inr r \<Rightarrow> dpath ks r)"

text \<open>The list under the key \<open>caveats\<close> of what a call returned.\<close>

definition caveats_of :: "py_error + pyobj \<Rightarrow> pyobj list option" where
  "caveats_of res =
     (case returned [''caveats''] res of Some (PList cs) \<Rightarrow> Some cs | _ \<Rightarrow> None)"

text \<open>The eight tier names of the journey table.\<close>

definition cliff_tier_names :: "string list" where
  "cliff_tier_names =
     [''graduated'', ''near_graduation'', ''deep_cliff'', ''liheap_childcare'',
      ''snap_tenncare'', ''deep_poverty'', ''extreme_poverty'', ''unknown'']"

text \<open>
  The tenure as the specification words it, for comparison with \<open>set_days_in_program\<close>:
  the latest observed date among last quarterly, first quarterly and baseline, minus the
  earliest observed date among enrollment, baseline and first quarterly, in whole days;
  null when either endpoint is unavailable.
\<close>

definition observed :: "timestamp option list \<Rightarrow> timestamp list" where
  "observed ds = List.map_filter (\<lambda>d. d) ds"

definition latest_observed :: "timestamp option list \<Rightarrow> timestamp option" where
  "latest_observed ds =
     (case observed ds of [] \<Rightarrow> None | d # rest \<Rightarrow> Some (fold max rest d))"

definition earliest_observed :: "timestamp option list \<Rightarrow> timestamp option" where
  "earliest_observed ds =
     (case observed ds of [] \<Rightarrow> None | d # rest \<Rightarrow> Some (fold min rest d))"

definition spec_days_in_program :: "journey \<Rightarrow> int option" where
  "spec_days_in_program j =
     (case (latest_observed [last_quarterly_date j, first_quarterly_date j, baseline_date j],
            earliest_observed [enrollment_date j, baseline_date j, first_quarterly_date j]) of
        (Some l, Some e) \<Rightarrow> Some ((l - e) div ns_per_day)
      | _ \<Rightarrow> None)"

text \<open>A count that is missing or a whole number of at least zero.\<close>

definition whole_nonneg :: "pyval \<Rightarrow> bool" where
  "whole_nonneg v = (case v of PyNum x \<Rightarrow> 0 \<le> x \<and> x = real_of_int \<lfloor>x\<rfloor> | _ \<Rightarrow> True)"

text \<open>A household size that is missing or at least one.\<close>

definition at_least_one :: "pyval \<Rightarrow> bool" where
  "at_least_one v = (case v of PyNum x \<Rightarrow> 1 \<le> x | _ \<Rightarrow> True)"

section \<open>Evaluation of the journey builder\<close>

text \<open>
  The definitions that a concrete run of \<open>build_single_journey\<close> unfolds. With the weak
  congruence rule for \<open>let\<close> the simplifier evaluates each block on the value of the
  block before it.
\<close>

lemmas journey_defs =
  build_single_journey_def id_matches_def new_journey_def from_empower_def from_intake_def
  from_baseline_def from_quarterly_def sort_values_date_def fallback_income_def
  fallback_fpl_def set_days_in_program_def outcome_classifications_def notna_def py_or_def
  is_confirmed_def truthy_str_def timedelta_days_def ns_per_day_def classify_cliff_tier_def

section \<open>Properties of the outcome classification\<close>

lemma py_ge_or_zero: "py_ge (py_or v (PyNum 0)) 225 = py_ge v 225"
  by (cases v) (auto simp: py_or_def)

lemma py_ge_isna: "isna v \<Longrightarrow> \<not> py_ge v x"
  by (cases v) auto

lemma classify_graduated:
  "(classify_cliff_tier c v = ''graduated'') = (c \<or> py_ge v 225)"
  by (cases v) (auto simp: classify_cliff_tier_def)

lemma classify_in_names: "classify_cliff_tier c v \<in> set cliff_tier_names"
  by (simp add: classify_cliff_tier_def cliff_tier_names_def)

lemma classify_unknown: "\<not> c \<Longrightarrow> isna v \<Longrightarrow> classify_cliff_tier c v = ''unknown''"
  by (simp add: classify_cliff_tier_def)

lemma outcome_classifications_fields:
  "is_graduate (outcome_classifications c j) = Some (c \<or> py_ge (current_fpl j) 225)"
  "cliff_tier (outcome_classifications c j) = Some (classify_cliff_tier c (current_fpl j))"
  "current_fpl (outcome_classifications c j) = current_fpl j"
  by (simp_all add: outcome_classifications_def Let_def py_ge_or_zero)

lemma outcome_classifications_keeps:
  "days_in_program (outcome_classifications c j) = days_in_program j"
  "enrollment_date (outcome_classifications c j) = enrollment_date j"
  "baseline_date (outcome_classifications c j) = baseline_date j"
  "first_quarterly_date (outcome_classifications c j) = first_quarterly_date j"
  "last_quarterly_date (outcome_classifications c j) = last_quarterly_date j"
  "household_size (outcome_classifications c j) = household_size j"
  by (simp_all add: outcome_classifications_def Let_def)

text \<open>
  C1. For every participant id and every content of the source tables, the journey that
  \<open>build_single_journey\<close> returns has \<open>is_graduate\<close> true exactly when the id is on
  the graduate roster or the journey's \<open>current_fpl\<close> is a number of at least 225, and
  has \<open>cliff_tier = "graduated"\<close> exactly under the same condition. A participant on
  the roster is a graduate with tier \<open>graduated\<close> whatever the tables hold.
  \<open>build_participant_journeys_from_raw\<close> appends one such journey for each known id,
  so this covers every row of the journey table.
\<close>

theorem graduate_iff_roster_or_fpl:
  "(let j = build_single_journey pid intake baseline quarterly change_of_life empower
              graduate_ids;
        on_roster_or_225 = (is_confirmed pid graduate_ids \<or> py_ge (current_fpl j) 225)
    in is_graduate j = Some on_roster_or_225
       \<and> (cliff_tier j = Some ''graduated'') = on_roster_or_225)
   \<and> (let j = build_single_journey pid intake baseline quarterly change_of_life empower
                (Some (insert pid ids))
      in is_graduate j = Some True \<and> cliff_tier j = Some ''graduated'')"
  by (simp add: build_single_journey_def Let_def outcome_classifications_fields
      classify_graduated is_confirmed_def)

text \<open>
  An instance: participant 7 is on the roster and the Empower extract gives a current FPL
  of 120; the journey is a graduate with tier \<open>graduated\<close> and keeps the FPL of 120.
  Participant 8, not on the roster, with the same FPL, is neither.
\<close>

theorem graduate_iff_roster_or_fpl_witness:
  "(let j = build_single_journey 7 [] [] [] []
              [\<lparr> emp_participant_id = PyNum 7, empower_wage_gain = PyNaN,
                  empower_fpl_current = PyNum 120, empower_fpl_enrollment = PyNaN,
                  empower_household_size = PyNaN, empower_county = None,
                  empower_navigator = None \<rparr>]
              (Some {7})
    in is_graduate j = Some True \<and> cliff_tier j = Some ''graduated''
       \<and> current_fpl j = PyNum 120)
   \<and> (let j = build_single_journey 8 [] [] [] []
              [\<lparr> emp_participant_id = PyNum 8, empower_wage_gain = PyNaN,
                  empower_fpl_current = PyNum 120, empower_fpl_enrollment = PyNaN,
                  empower_household_size = PyNaN, empower_county = None,
                  empower_navigator = None \<rparr>]
              (Some {7})
    in is_graduate j = Some False \<and> cliff_tier j = Some ''snap_tenncare'')"
  using graduate_iff_roster_or_fpl [of 7 "[]" "[]" "[]" "[]"
      "[\<lparr> emp_participant_id = PyNum 7, empower_wage_gain = PyNaN,
          empower_fpl_current = PyNum 120, empower_fpl_enrollment = PyNaN,
          empower_household_size = PyNaN, empower_county = None,
          empower_navigator = None \<rparr>]" "Some {7}" "{}"]
  by (simp add: journey_defs Let_def cong: let_weak_cong)

text \<open>
  C10. Every journey that \<open>build_single_journey\<close> returns has a \<open>cliff_tier\<close> that is
  one of the eight names and an \<open>is_graduate\<close> that is a boolean, never missing. When
  the participant is not on the roster and the journey has no \<open>current_fpl\<close>,
  \<open>is_graduate\<close> is false and the tier is \<open>unknown\<close>.
\<close>

theorem tier_and_flag_always_set:
  "(let j = build_single_journey pid intake baseline quarterly change_of_life empower
              graduate_ids
    in (\<exists>t. cliff_tier j = Some t \<and> t \<in> set cliff_tier_names)
       \<and> (\<exists>b. is_graduate j = Some b)
       \<and> (\<not> is_confirmed pid graduate_ids \<and> isna (current_fpl j)
            \<longrightarrow> is_graduate j = Some False \<and> cliff_tier j = Some ''unknown''))"
  by (simp add: build_single_journey_def Let_def outcome_classifications_fields
      classify_in_names classify_unknown py_ge_isna)

text \<open>
  An instance: participant 9 is in no table and not on the roster \<open>{7}\<close>. The journey
  has no FPL, no income change, no household size and no tenure, and still has
  \<open>is_graduate = False\<close> and \<open>cliff_tier = "unknown"\<close>.
\<close>

theorem tier_and_flag_always_set_witness:
  "(let j = build_single_journey 9 [] [] [] [] [] (Some {7})
    in \<not> is_confirmed 9 (Some {7}) \<and> isna (current_fpl j)
       \<and> is_graduate j = Some False \<and> cliff_tier j = Some ''unknown''
       \<and> current_fpl j = PyNone \<and> income_change_annual j = PyNone
       \<and> household_size j = PyNone \<and> days_in_program j = None)"
  using tier_and_flag_always_set [of 9 "[]" "[]" "[]" "[]" "[]" "Some {7}"]
  by (simp add: journey_defs Let_def cong: let_weak_cong)

section \<open>Properties of the tenure\<close>

lemma set_days_in_program_fields:
  "days_in_program (set_days_in_program j) =
     (case (first_available [enrollment_date j, baseline_date j, first_quarterly_date j],
            first_available [last_quarterly_date j, first_quarterly_date j, baseline_date j]) of
        (Some e, Some l) \<Rightarrow> Some ((l - e) div ns_per_day)
      | _ \<Rightarrow> None)"
  "enrollment_date (set_days_in_program j) = enrollment_date j"
  "baseline_date (set_days_in_program j) = baseline_date j"
  "first_quarterly_date (set_days_in_program j) = first_quarterly_date j"
  "last_quarterly_date (set_days_in_program j) = last_quarterly_date j"
  "household_size (set_days_in_program j) = household_size j"
  by (simp_all add: set_days_in_program_def Let_def timedelta_days_def
      split: option.splits prod.splits)

lemma days_of_final_journey:
  "(let j = (outcome_classifications c (set_days_in_program j0))\<lparr>total_assessments := n\<rparr>
    in days_in_program j =
        (case (first_available [enrollment_date j, baseline_date j, first_quarterly_date j],
               first_available [last_quarterly_date j, first_quarterly_date j, baseline_date j]) of
           (Some e, Some l) \<Rightarrow> Some ((l - e) div ns_per_day)
         | _ \<Rightarrow> None))"
  by (simp add: Let_def outcome_classifications_keeps set_days_in_program_fields
      cong: option.case_cong)

text \<open>
  C7, as the code has it. For every participant, \<open>days_in_program\<close> is the first
  available date in the order last quarterly, first quarterly, baseline, minus the first
  available date in the order enrollment, baseline, first quarterly, in whole days
  (rounded down), and is null when either of the two is unavailable. The dates are taken
  by priority, not by comparing them.
\<close>

theorem days_in_program_by_priority:
  "(let j = build_single_journey pid intake baseline quarterly change_of_life empower
              graduate_ids
    in days_in_program j =
        (case (first_available [enrollment_date j, baseline_date j, first_quarterly_date j],
               first_available [last_quarterly_date j, first_quarterly_date j, baseline_date j]) of
           (Some e, Some l) \<Rightarrow> Some ((l - e) div ns_per_day)
         | _ \<Rightarrow> None))"
  unfolding build_single_journey_def by (metis days_of_final_journey)

text \<open>
  The claim as worded fails where the intake form is dated after the baseline
  assessment. Participant 7: intake on day 10, baseline on day 5, one quarterly
  assessment on day 100. The code starts from the intake date and returns 90 days; the
  earliest of the three start dates is day 5, which gives 95.
\<close>

theorem days_in_program_counterexample:
  "days_in_program
     (build_single_journey 7
        [\<lparr> intake_participant_id = PyNum 7, intake_county = None,
            intake_enrollment_status = None,
            intake_submission_date = Some (10 * ns_per_day),
            intake_adults = PyNaN, intake_children = PyNaN \<rparr>]
        [\<lparr> baseline_participant_id = PyNum 7,
            baseline_submission_date = Some (5 * ns_per_day), baseline_wage = PyNaN \<rparr>]
        [\<lparr> quarterly_participant_id = PyNum 7,
            quarterly_submission_date = Some (100 * ns_per_day), quarterly_income = PyNaN \<rparr>]
        [] [] None) = Some 90
   \<and> spec_days_in_program
     (build_single_journey 7
        [\<lparr> intake_participant_id = PyNum 7, intake_county = None,
            intake_enrollment_status = None,
            intake_submission_date = Some (10 * ns_per_day),
            intake_adults = PyNaN, intake_children = PyNaN \<rparr>]
        [\<lparr> baseline_participant_id = PyNum 7,
            baseline_submission_date = Some (5 * ns_per_day), baseline_wage = PyNaN \<rparr>]
        [\<lparr> quarterly_participant_id = PyNum 7,
            quarterly_submission_date = Some (100 * ns_per_day), quarterly_income = PyNaN \<rparr>]
        [] [] None) = Some 95"
  by (simp add: journey_defs Let_def spec_days_in_program_def latest_observed_def
      earliest_observed_def observed_def List.map_filter_simps cong: let_weak_cong)

text \<open>
  An instance of the priority rule: a participant with a baseline on day 5 and no other
  record has a tenure of 0 days, and one with no dated record has none.
\<close>

theorem days_in_program_by_priority_witness:
  "days_in_program
     (build_single_journey 7 []
        [\<lparr> baseline_participant_id = PyNum 7,
            baseline_submission_date = Some (5 * ns_per_day), baseline_wage = PyNaN \<rparr>]
        [] [] [] None) = Some 0
   \<and> days_in_program (build_single_journey 7 [] [] [] [] [] None) = None"
  using days_in_program_by_priority [of 7 "[]"
      "[\<lparr> baseline_participant_id = PyNum 7,
          baseline_submission_date = Some (5 * ns_per_day), baseline_wage = PyNaN \<rparr>]"
      "[]" "[]" "[]" None]
  by (simp add: journey_defs Let_def cong: let_weak_cong)

section \<open>Properties of the household size\<close>

lemma later_blocks_keep_household_size:
  "household_size (fallback_fpl j) = household_size j"
  "household_size (fallback_income j) = household_size j"
  "household_size (from_quarterly qrecs j) = household_size j"
  by (simp_all add: fallback_fpl_def fallback_income_def from_quarterly_def Let_def)

lemma from_baseline_keeps_household_size:
  "household_size (from_baseline brecs j) = household_size j"
  by (simp add: from_baseline_def Let_def split: list.splits)

lemma from_intake_household_size:
  "household_size (from_intake recs j) =
     (case recs of
        [] \<Rightarrow> household_size j
      | row # _ \<Rightarrow>
          if truthy (household_size j) then household_size j
          else py_add (py_or (intake_adults row) (PyNum 1))
                      (py_or (intake_children row) (PyNum 2)))"
  by (simp add: from_intake_def Let_def split: list.splits)

lemma from_empower_household_size:
  "household_size (from_empower recs (new_journey pid)) =
     (case recs of
        [] \<Rightarrow> PyNone
      | r # _ \<Rightarrow>
          if notna (empower_household_size r) then empower_household_size r else PyNone)"
  by (simp add: from_empower_def new_journey_def Let_def split: list.splits)

lemma build_household_size:
  "household_size
     (build_single_journey pid intake baseline quarterly change_of_life empower graduate_ids) =
   household_size
     (from_intake (filter (\<lambda>r. id_matches pid (intake_participant_id r)) intake)
        (from_empower (filter (\<lambda>r. id_matches pid (emp_participant_id r)) empower)
           (new_journey pid)))"
  by (simp add: build_single_journey_def Let_def outcome_classifications_keeps
      set_days_in_program_fields later_blocks_keep_household_size
      from_baseline_keeps_household_size)

lemma whole_nonneg_cases:
  assumes "whole_nonneg (PyNum x)"
  shows "x = 0 \<or> 1 \<le> x"
proof -
  from assms have "0 \<le> x" and x: "x = real_of_int \<lfloor>x\<rfloor>"
    by (simp_all add: whole_nonneg_def)
  then have "0 \<le> \<lfloor>x\<rfloor>" by simp
  then have "\<lfloor>x\<rfloor> = 0 \<or> 1 \<le> \<lfloor>x\<rfloor>" by linarith
  with x show ?thesis by (metis of_int_0 of_int_1 of_int_le_iff)
qed

lemma or_default_at_least_one:
  assumes "whole_nonneg v" and "1 \<le> d"
  shows "py_or v (PyNum d) = PyNaN \<or> (\<exists>x. py_or v (PyNum d) = PyNum x \<and> 1 \<le> x)"
proof (cases v)
  case PyNone
  with assms(2) show ?thesis by (simp add: py_or_def)
next
  case PyNaN
  then show ?thesis by (simp add: py_or_def)
next
  case (PyNum x)
  with assms(1) have "x = 0 \<or> 1 \<le> x" by (simp add: whole_nonneg_cases)
  with PyNum assms(2) show ?thesis by (auto simp: py_or_def)
qed

lemma intake_fallback_at_least_one:
  assumes "whole_nonneg a" and "whole_nonneg c"
  shows "at_least_one (py_add (py_or a (PyNum 1)) (py_or c (PyNum 2)))"
proof -
  from assms(1) have "py_or a (PyNum 1) = PyNaN \<or> (\<exists>x. py_or a (PyNum 1) = PyNum x \<and> 1 \<le> x)"
    by (rule or_default_at_least_one) simp
  moreover
  from assms(2) have "py_or c (PyNum 2) = PyNaN \<or> (\<exists>y. py_or c (PyNum 2) = PyNum y \<and> 1 \<le> y)"
    by (rule or_default_at_least_one) simp
  ultimately show ?thesis
    by (auto simp: at_least_one_def)
qed

lemma household_size_from_sources:
  assumes emp: "\<forall>r \<in> set empower. at_least_one (empower_household_size r)"
    and intk: "\<forall>r \<in> set intake. whole_nonneg (intake_adults r) \<and> whole_nonneg (intake_children r)"
  shows "at_least_one (household_size
           (build_single_journey pid intake baseline quarterly change_of_life empower
              graduate_ids))"
proof -
  let ?er = "filter (\<lambda>r. id_matches pid (emp_participant_id r)) empower"
  let ?ir = "filter (\<lambda>r. id_matches pid (intake_participant_id r)) intake"
  let ?h0 = "household_size (from_empower ?er (new_journey pid))"
  have h0: "at_least_one ?h0"
  proof (cases ?er)
    case Nil
    then show ?thesis by (simp add: from_empower_household_size at_least_one_def)
  next
    case (Cons r rest)
    then have "r \<in> set ?er" by simp
    then have "r \<in> set empower" by simp
    with emp have "at_least_one (empower_household_size r)" by blast
    with Cons show ?thesis by (simp add: from_empower_household_size at_least_one_def)
  qed
  show ?thesis
  proof (cases ?ir)
    case Nil
    with h0 show ?thesis by (simp add: build_household_size from_intake_household_size)
  next
    case (Cons row rest)
    then have "row \<in> set ?ir" by simp
    then have "row \<in> set intake" by simp
    with intk have "whole_nonneg (intake_adults row)" "whole_nonneg (intake_children row)"
      by blast+
    then have "at_least_one (py_add (py_or (intake_adults row) (PyNum 1))
                                    (py_or (intake_children row) (PyNum 2)))"
      by (rule intake_fallback_at_least_one)
    with h0 Cons show ?thesis by (simp add: build_household_size from_intake_household_size)
  qed
qed

lemma falsy_number: "\<not> isna v \<Longrightarrow> \<not> truthy v \<Longrightarrow> v = PyNum 0"
  by (cases v) simp_all

lemma stored_household_size:
  "(let supplied =
          (case filter (\<lambda>r. id_matches pid (emp_participant_id r)) empower of
             [] \<Rightarrow> PyNone
           | r # _ \<Rightarrow> empower_household_size r);
        intake_rec = filter (\<lambda>r. id_matches pid (intake_participant_id r)) intake
    in supplied \<noteq> PyNum 0 \<or> intake_rec = [] \<longrightarrow>
       household_size
         (build_single_journey pid intake baseline quarterly change_of_life empower
            graduate_ids) =
         (if notna supplied then supplied
          else case intake_rec of
                 [] \<Rightarrow> PyNone
               | row # _ \<Rightarrow> py_add (py_or (intake_adults row) (PyNum 1))
                                  (py_or (intake_children row) (PyNum 2))))"
  by (auto simp: Let_def build_household_size from_intake_household_size
      from_empower_household_size notna_def split: list.splits dest: falsy_number)

lemma household_count_ge_1: "1 \<le> household_count hs"
  by (cases hs) (simp_all add: household_count_def)

text \<open>
  C6, as the code has it. The journey stores the household size as the sources supply
  it, without coercion. When the Empower extract supplies a household size for the
  participant, the journey's \<open>household_size\<close> is that value unchanged: for every value
  other than 0, and for 0 as well when the participant has no intake record. When the
  extract supplies none (no row for the participant, or a blank cell),
  \<open>household_size\<close> is \<open>(adults or 1) + (children or 2)\<close> from the participant's
  intake record, and stays unset when there is no intake record. So the stored value,
  when set, is at least 1 whenever every Empower household size that is present is at
  least 1 and the intake counts that are present are whole numbers of at least zero. The
  coercion to at least 1 exists only inside the FPL computation, on the household count
  that \<open>calculate_fpl_pct\<close> divides by.
\<close>

theorem household_size_as_supplied:
  "((\<forall>r \<in> set empower. at_least_one (empower_household_size r))
      \<and> (\<forall>r \<in> set intake. whole_nonneg (intake_adults r) \<and> whole_nonneg (intake_children r))
     \<longrightarrow> at_least_one (household_size
           (build_single_journey pid intake baseline quarterly change_of_life empower
              graduate_ids)))
   \<and> (let supplied =
          (case filter (\<lambda>r. id_matches pid (emp_participant_id r)) empower of
             [] \<Rightarrow> PyNone
           | r # _ \<Rightarrow> empower_household_size r);
          intake_rec = filter (\<lambda>r. id_matches pid (intake_participant_id r)) intake
      in supplied \<noteq> PyNum 0 \<or> intake_rec = [] \<longrightarrow>
         household_size
           (build_single_journey pid intake baseline quarterly change_of_life empower
              graduate_ids) =
           (if notna supplied then supplied
            else case intake_rec of
                   [] \<Rightarrow> PyNone
                 | row # _ \<Rightarrow> py_add (py_or (intake_adults row) (PyNum 1))
                                    (py_or (intake_children row) (PyNum 2))))
   \<and> 1 \<le> household_count hs"
proof (intro conjI)
  show "(\<forall>r \<in> set empower. at_least_one (empower_household_size r))
      \<and> (\<forall>r \<in> set intake. whole_nonneg (intake_adults r) \<and> whole_nonneg (intake_children r))
     \<longrightarrow> at_least_one (household_size
           (build_single_journey pid intake baseline quarterly change_of_life empower
              graduate_ids))"
    by (simp add: household_size_from_sources)
  show "1 \<le> household_count hs" by (rule household_count_ge_1)
qed (rule stored_household_size)

text \<open>
  The claim as worded fails on an Empower household size of 0: participant 7 has no
  intake record, the extract's 0 is stored, and the journey's \<open>household_size\<close> is set
  and below 1.
\<close>

theorem household_size_counterexample:
  "household_size
     (build_single_journey 7 [] [] [] []
        [\<lparr> emp_participant_id = PyNum 7, empower_wage_gain = PyNaN,
            empower_fpl_current = PyNaN, empower_fpl_enrollment = PyNaN,
            empower_household_size = PyNum 0, empower_county = None,
            empower_navigator = None \<rparr>]
        None) = PyNum 0
   \<and> \<not> at_least_one (PyNum 0)"
  by (simp add: journey_defs Let_def at_least_one_def cong: let_weak_cong)

text \<open>
  Two instances. The extract gives participant 7 a household of 4, the intake form 2
  adults and 1 child: the hypotheses hold and the journey stores 4. Participant 8 is not
  in the extract and the intake form has 2 adults and no entry for the children: the
  journey stores 2 + 2 = 4 as well. Participant 9 is only in the extract, with a
  household of 0: the journey stores 0.
\<close>

theorem household_size_as_supplied_witness:
  "at_least_one (PyNum 4) \<and> whole_nonneg (PyNum 2) \<and> whole_nonneg (PyNum 1)
   \<and> PyNum 4 \<noteq> PyNum 0
   \<and> household_size
     (build_single_journey 7
        [\<lparr> intake_participant_id = PyNum 7, intake_county = None,
            intake_enrollment_status = None, intake_submission_date = None,
            intake_adults = PyNum 2, intake_children = PyNum 1 \<rparr>]
        [] [] []
        [\<lparr> emp_participant_id = PyNum 7, empower_wage_gain = PyNaN,
            empower_fpl_current = PyNaN, empower_fpl_enrollment = PyNaN,
            empower_household_size = PyNum 4, empower_county = None,
            empower_navigator = None \<rparr>]
        None) = PyNum 4
   \<and> household_size
     (build_single_journey 8
        [\<lparr> intake_participant_id = PyNum 8, intake_county = None,
            intake_enrollment_status = None, intake_submission_date = None,
            intake_adults = PyNum 2, intake_children = PyNone \<rparr>]
        [] [] [] [] None) = PyNum 4
   \<and> household_size
     (build_single_journey 9 [] [] [] []
        [\<lparr> emp_participant_id = PyNum 9, empower_wage_gain = PyNaN,
            empower_fpl_current = PyNaN, empower_fpl_enrollment = PyNaN,
            empower_household_size = PyNum 0, empower_county = None,
            empower_navigator = None \<rparr>]
        None) = PyNum 0"
  using household_size_as_supplied [where pid = 7 and baseline = "[]" and quarterly = "[]"
      and change_of_life = "[]" and graduate_ids = None and hs = PyNone
      and empower =
        "[\<lparr> emp_participant_id = PyNum 7, empower_wage_gain = PyNaN,
            empower_fpl_current = PyNaN, empower_fpl_enrollment = PyNaN,
            empower_household_size = PyNum 4, empower_county = None,
            empower_navigator = None \<rparr>]"
      and intake =
        "[\<lparr> intake_participant_id = PyNum 7, intake_county = None,
            intake_enrollment_status = None, intake_submission_date = None,
            intake_adults = PyNum 2, intake_children = PyNum 1 \<rparr>]"]
    household_size_as_supplied [where pid = 8 and baseline = "[]" and quarterly = "[]"
      and change_of_life = "[]" and graduate_ids = None and hs = PyNone
      and empower = "[]"
      and intake =
        "[\<lparr> intake_participant_id = PyNum 8, intake_county = None,
            intake_enrollment_status = None, intake_submission_date = None,
            intake_adults = PyNum 2, intake_children = PyNone \<rparr>]"]
    household_size_as_supplied [where pid = 9 and baseline = "[]" and quarterly = "[]"
      and change_of_life = "[]" and graduate_ids = None and hs = PyNone
      and intake = "[]"
      and empower =
        "[\<lparr> emp_participant_id = PyNum 9, empower_wage_gain = PyNaN,
            empower_fpl_current = PyNaN, empower_fpl_enrollment = PyNaN,
            empower_household_size = PyNum 0, empower_county = None,
            empower_navigator = None \<rparr>]"]
  by (simp add: id_matches_def notna_def py_or_def at_least_one_def whole_nonneg_def Let_def)

section \<open>Merge priority\<close>

text \<open>
  What the guard does keep: a wage gain from the Empower extract that is not zero is the
  journey's \<open>income_change_annual\<close>, whatever the quarterly and baseline records hold.
\<close>

lemma later_blocks_keep_income_change:
  "income_change_annual (fallback_fpl j) = income_change_annual j"
  "income_change_annual (set_days_in_program j) = income_change_annual j"
  "income_change_annual (outcome_classifications c j) = income_change_annual j"
  "income_change_annual (from_quarterly qrecs j) = income_change_annual j"
  by (simp_all add: fallback_fpl_def set_days_in_program_def outcome_classifications_def
      from_quarterly_def Let_def split: option.splits prod.splits)

lemma from_baseline_keeps_income_change:
  "income_change_annual (from_baseline brecs j) = income_change_annual j"
  by (simp add: from_baseline_def Let_def split: list.splits)

lemma from_intake_keeps_income_change:
  "income_change_annual (from_intake irecs j) = income_change_annual j"
  by (simp add: from_intake_def Let_def split: list.splits)

lemma fallback_income_keeps_truthy:
  "truthy (income_change_annual j) \<Longrightarrow> income_change_annual (fallback_income j) = income_change_annual j"
  by (simp add: fallback_income_def)

lemma from_empower_income_change:
  "income_change_annual (from_empower (r # rs) (new_journey pid)) =
     (if notna (empower_wage_gain r) then empower_wage_gain r else PyNone)"
  by (simp add: from_empower_def new_journey_def Let_def)

lemma nonzero_empower_wage_gain_kept:
  assumes "id_matches pid (emp_participant_id r)"
    and "empower_wage_gain r = PyNum w" and "w \<noteq> 0"
  shows "income_change_annual
           (build_single_journey pid intake baseline quarterly change_of_life (r # empower)
              graduate_ids) = PyNum w"
  using assms
  by (simp add: build_single_journey_def Let_def later_blocks_keep_income_change
      from_baseline_keeps_income_change from_intake_keeps_income_change
      fallback_income_keeps_truthy from_empower_income_change notna_def)

text \<open>
  C2 does not hold of the code for a value of 0. The fallback block is guarded by
  \<open>if not journey.get('income_change_annual')\<close>, which is true for 0 as for a missing
  value, although its comment reads "only if not set from Empower". Participant 7: the
  extract supplies a wage gain of 0 and an enrollment FPL of 150 but no current FPL; the
  quarterly assessments report 1000 a month on day 0 and 1250 on day 90. The journey's
  \<open>income_change_annual\<close> is the quarterly 3000, not the extract's 0, the flag
  \<open>has_positive_income_change\<close> is true, and \<open>enrollment_fpl\<close> is no longer the
  extract's 150.
\<close>

theorem zero_wage_gain_overwritten:
  "(let j = build_single_journey 7 [] []
       [\<lparr> quarterly_participant_id = PyNum 7, quarterly_submission_date = Some 0,
           quarterly_income = PyNum 1000 \<rparr>,
        \<lparr> quarterly_participant_id = PyNum 7,
           quarterly_submission_date = Some (90 * ns_per_day),
           quarterly_income = PyNum 1250 \<rparr>]
       []
       [\<lparr> emp_participant_id = PyNum 7, empower_wage_gain = PyNum 0,
           empower_fpl_current = PyNaN, empower_fpl_enrollment = PyNum 150,
           empower_household_size = PyNaN, empower_county = None,
           empower_navigator = None \<rparr>]
       None
    in income_change_annual j = PyNum 3000
       \<and> has_positive_income_change j = Some True
       \<and> enrollment_fpl j \<noteq> PyNum 150)"
  by (simp add: journey_defs Let_def calculate_fpl_pct_def household_count_def py_int_def
      FPL_BASE_def FPL_PER_ADDITIONAL_def cong: let_weak_cong)

section \<open>Properties of the poverty model\<close>

text \<open>
  C3, as the code has it. \<open>calculate_fpl_pct\<close>, the function of the journey builder,
  returns null when the annual income is null or at most 0 (so for incomes 0 and -100),
  and otherwise income / (15060 + 5380 (hh - 1)) 100, where hh is the household size
  truncated to an integer and raised to at least 1, or 3 when the household size is
  missing; at income 15060 and household size 1 the result is exactly 100. The other
  FPL functions have guards of their own: \<open>calculate_fpl\<close> of the metrics module
  returns null when either argument is null, when the income is below 0 or when the
  household size is below 1, and applies the formula from an income of 0 on;
  \<open>calculate_fpl_from_income\<close> of the pipeline applies the formula to every income.
\<close>

theorem fpl_model:
  "(isna income \<longrightarrow> calculate_fpl_pct income hs = PyNone)
   \<and> (a \<le> 0 \<longrightarrow> calculate_fpl_pct (PyNum a) hs = PyNone)
   \<and> (0 < a \<longrightarrow> calculate_fpl_pct (PyNum a) hs =
         PyNum (a / (15060 + 5380 * (real_of_int (household_count hs) - 1)) * 100))
   \<and> 1 \<le> household_count hs
   \<and> (isna hs \<longrightarrow> household_count hs = 3)
   \<and> (1 \<le> n \<longrightarrow> household_count (PyNum (real_of_int n)) = n)
   \<and> calculate_fpl_pct (PyNum 0) (PyNum 3) = PyNone
   \<and> calculate_fpl_pct (PyNum (- 100)) (PyNum 3) = PyNone
   \<and> calculate_fpl_pct (PyNum 15060) (PyNum 1) = PyNum 100
   \<and> (isna income \<or> isna hs \<longrightarrow> calculate_fpl income hs = PyNone)
   \<and> (a < 0 \<or> h < 1 \<longrightarrow> calculate_fpl (PyNum a) (PyNum h) = PyNone)
   \<and> (0 \<le> a \<and> 1 \<le> h \<longrightarrow> calculate_fpl (PyNum a) (PyNum h) =
         PyNum (a / (15060 + 5380 * (real_of_int \<lfloor>h\<rfloor> - 1)) * 100))
   \<and> calculate_fpl_from_income a n =
         PyNum (a / (15060 + 5380 * (real_of_int (max 1 n) - 1)) * 100)"
proof -
  have pct_na: "isna income \<longrightarrow> calculate_fpl_pct income hs = PyNone"
    by (cases income) (simp_all add: calculate_fpl_pct_def)
  have pct_le: "a \<le> 0 \<longrightarrow> calculate_fpl_pct (PyNum a) hs = PyNone"
    by (simp add: calculate_fpl_pct_def)
  have pct_gt: "0 < a \<longrightarrow> calculate_fpl_pct (PyNum a) hs =
         PyNum (a / (15060 + 5380 * (real_of_int (household_count hs) - 1)) * 100)"
    by (simp add: calculate_fpl_pct_def Let_def FPL_BASE_def FPL_PER_ADDITIONAL_def)
  have hc1: "1 \<le> household_count hs"
    by (rule household_count_ge_1)
  have hc3: "isna hs \<longrightarrow> household_count hs = 3"
    by (cases hs) (simp_all add: household_count_def)
  have hcn: "1 \<le> n \<longrightarrow> household_count (PyNum (real_of_int n)) = n"
    by (simp add: household_count_def py_int_def)
  have ex: "calculate_fpl_pct (PyNum 0) (PyNum 3) = PyNone"
    "calculate_fpl_pct (PyNum (- 100)) (PyNum 3) = PyNone"
    "calculate_fpl_pct (PyNum 15060) (PyNum 1) = PyNum 100"
    by (simp_all add: calculate_fpl_pct_def household_count_def py_int_def FPL_BASE_def
        FPL_PER_ADDITIONAL_def)
  have fpl_na: "isna income \<or> isna hs \<longrightarrow> calculate_fpl income hs = PyNone"
    by (cases income; cases hs) (simp_all add: calculate_fpl_def)
  have fpl_lt: "a < 0 \<or> h < 1 \<longrightarrow> calculate_fpl (PyNum a) (PyNum h) = PyNone"
    by (simp add: calculate_fpl_def)
  have fpl_ok: "0 \<le> a \<and> 1 \<le> h \<longrightarrow> calculate_fpl (PyNum a) (PyNum h) =
         PyNum (a / (15060 + 5380 * (real_of_int \<lfloor>h\<rfloor> - 1)) * 100)"
  proof
    assume ah: "0 \<le> a \<and> 1 \<le> h"
    then have "1 \<le> \<lfloor>h\<rfloor>" by linarith
    with ah show "calculate_fpl (PyNum a) (PyNum h) =
         PyNum (a / (15060 + 5380 * (real_of_int \<lfloor>h\<rfloor> - 1)) * 100)"
      by (simp add: calculate_fpl_def get_poverty_line_def py_int_def FPL_BASE_def
          FPL_PER_ADDITIONAL_def Let_def)
  qed
  have inc: "calculate_fpl_from_income a n =
         PyNum (a / (15060 + 5380 * (real_of_int (max 1 n) - 1)) * 100)"
    by (simp add: calculate_fpl_from_income_def Let_def max_def)
  from pct_na pct_le pct_gt hc1 hc3 hcn ex fpl_na fpl_lt fpl_ok inc show ?thesis
    by blast
qed

text \<open>
  The claim as worded, "for every FPL-computing function", fails on
  \<open>calculate_fpl\<close>: at an income of 0 and a household of 3 it returns 0, not null.
\<close>

theorem calculate_fpl_zero_income_counterexample:
  "calculate_fpl (PyNum 0) (PyNum 3) = PyNum 0
   \<and> calculate_fpl (PyNum 0) (PyNum 3) \<noteq> PyNone"
  by (simp add: calculate_fpl_def get_poverty_line_def py_int_def FPL_BASE_def
      FPL_PER_ADDITIONAL_def)

text \<open>
  An instance: an income of 25820 in a household of 3 is exactly at the poverty line for
  both functions, a household size of 0 counts as 1 in \<open>calculate_fpl_pct\<close> and is
  refused by \<open>calculate_fpl\<close>, and a missing income gives null.
\<close>

theorem fpl_model_witness:
  "isna PyNaN \<and> (0 :: real) < 25820 \<and> (1 :: real) \<le> 3
   \<and> calculate_fpl_pct (PyNum 25820) (PyNum 3) = PyNum 100
   \<and> calculate_fpl (PyNum 25820) (PyNum 3) = PyNum 100
   \<and> calculate_fpl_pct PyNaN (PyNum 3) = PyNone
   \<and> calculate_fpl PyNaN (PyNum 3) = PyNone
   \<and> household_count (PyNum 3) = 3"
  using fpl_model [of PyNaN "PyNum 3" 25820 3 3]
  by (simp add: household_count_def py_int_def)

section \<open>Properties of the format detection\<close>

lemma detect_fpl_format_eq:
  "detect_fpl_format col =
     (if (\<exists>m. median col = PyNum m \<and> m < 10) then map (\<lambda>v. py_mul v 100) col else col)"
  by (cases "median col") (simp_all add: detect_fpl_format_def Let_def notna_def py_lt_def)

lemma median_examples:
  "median [PyNum 2.0, PyNum 2.25, PyNum 1.8] = PyNum 2"
  "median [PyNum 200, PyNum 225, PyNum 180] = PyNum 200"
  "median [PyNum 1, PyNaN, PyNum 4, PyNum 3, PyNum 2] = PyNum 2.5"
  "median [PyNaN, PyNaN] = PyNaN"
  by (simp_all add: median_def non_null_def List.map_filter_simps Let_def)

text \<open>
  C8. The format detection multiplies every cell of an FPL column by 100 exactly when
  the column has a median (it has a non-null cell) and the median is below 10, and
  returns the column unchanged otherwise; a null cell stays null. The column
  \<open>[2.0, 2.25, 1.8]\<close> has median 2 and becomes \<open>[200, 225, 180]\<close>; the column
  \<open>[200, 225, 180]\<close> has median 200 and is unchanged. In \<open>process_empower_data\<close>
  the current and the enrollment column each go through the detection on their own.
\<close>

theorem fpl_format_detection:
  "detect_fpl_format col =
     (if (\<exists>m. median col = PyNum m \<and> m < 10) then map (\<lambda>v. py_mul v 100) col else col)
   \<and> median [PyNum 2.0, PyNum 2.25, PyNum 1.8] = PyNum 2
   \<and> detect_fpl_format [PyNum 2.0, PyNum 2.25, PyNum 1.8] = [PyNum 200, PyNum 225, PyNum 180]
   \<and> median [PyNum 200, PyNum 225, PyNum 180] = PyNum 200
   \<and> detect_fpl_format [PyNum 200, PyNum 225, PyNum 180] = [PyNum 200, PyNum 225, PyNum 180]
   \<and> fpl_current_col (process_empower_data nrows (Some cur) enroll_fpl_cols hh_cols)
       = detect_fpl_format cur
   \<and> fpl_enrollment_col (process_empower_data nrows fpl_cols (Some enr) hh_cols)
       = detect_fpl_format enr"
proof -
  have ex1: "detect_fpl_format [PyNum 2.0, PyNum 2.25, PyNum 1.8]
               = [PyNum 200, PyNum 225, PyNum 180]"
    by (simp add: detect_fpl_format_def median_def non_null_def List.map_filter_simps Let_def
        notna_def py_lt_def)
  have ex2: "detect_fpl_format [PyNum 200, PyNum 225, PyNum 180]
               = [PyNum 200, PyNum 225, PyNum 180]"
    by (simp add: detect_fpl_format_def median_def non_null_def List.map_filter_simps Let_def
        notna_def py_lt_def)
  have cur: "fpl_current_col (process_empower_data nrows (Some cur) enroll_fpl_cols hh_cols)
       = detect_fpl_format cur"
    by (simp add: process_empower_data_def)
  have enr: "fpl_enrollment_col (process_empower_data nrows fpl_cols (Some enr) hh_cols)
       = detect_fpl_format enr"
    by (simp add: process_empower_data_def)
  from detect_fpl_format_eq [of col] median_examples(1) ex1 median_examples(2) ex2 cur enr
  show ?thesis
    by blast
qed

text \<open>
  An instance with a null cell and the two columns of one table: the current column is
  in decimal form and is scaled, its null cell stays null; the enrollment column is in
  percent already and is left alone.
\<close>

theorem fpl_format_detection_witness:
  "fpl_current_col
     (process_empower_data 3 (Some [PyNum 2.4, PyNaN, PyNum 1.1])
        (Some [PyNum 120, PyNum 95, PyNaN]) None) = [PyNum 240, PyNaN, PyNum 110]
   \<and> fpl_enrollment_col
     (process_empower_data 3 (Some [PyNum 2.4, PyNaN, PyNum 1.1])
        (Some [PyNum 120, PyNum 95, PyNaN]) None) = [PyNum 120, PyNum 95, PyNaN]"
  using fpl_format_detection [of "[PyNum 2.4, PyNaN, PyNum 1.1]" 3 "[PyNum 2.4, PyNaN, PyNum 1.1]"
      "Some [PyNum 120, PyNum 95, PyNaN]" None "Some [PyNum 2.4, PyNaN, PyNum 1.1]"
      "[PyNum 120, PyNum 95, PyNaN]"]
  by (simp add: detect_fpl_format_def median_def non_null_def List.map_filter_simps Let_def
      notna_def py_lt_def)

section \<open>Properties of the ROI tiers\<close>

lemma and_then_Inr [simp]: "and_then (Inr v) f = f v"
  by (simp add: and_then_def)

lemma and_then_Inl [simp]: "and_then (Inl e) f = Inl e"
  by (simp add: and_then_def)

lemma py_truediv_nonzero: "b \<noteq> 0 \<Longrightarrow> py_truediv a b = Inr (a / b)"
  by (simp add: py_truediv_def)

lemma div_or_inf_eq:
  "div_or_inf i g = Inr (if g > 0 then Fin (i / g) else PosInf)"
  by (simp add: div_or_inf_def py_truediv_nonzero)

lemma ratio_or_zero_eq:
  "ratio_or_zero x i = Inr (if i > 0 then PFloat (Fin (py_round (x / i) 1)) else PInt 0)"
  by (simp add: ratio_or_zero_def py_truediv_nonzero)

lemma attribution_returns: "\<exists>xs. attribution_scenarios g i pcts = Inr xs"
  by (induction pcts) (auto simp: Let_def py_truediv_nonzero)

lemma tier1_caveats:
  "\<exists>cs. caveats_of (calculate_tier1_conservative g i) = Some cs \<and> cs \<noteq> []"
  by (simp add: calculate_tier1_conservative_def div_or_inf_eq py_truediv_nonzero
      caveats_of_def returned_def)

lemma tier2_caveats:
  "\<exists>cs. caveats_of (calculate_tier2_taxpayer g counts i) = Some cs \<and> cs \<noteq> []"
  by (simp add: calculate_tier2_taxpayer_def Let_def py_truediv_nonzero caveats_of_def
      returned_def)

lemma tier3_caveats:
  "\<exists>cs. caveats_of (calculate_tier3_lifecycle g i) = Some cs \<and> cs \<noteq> []"
  by (simp add: calculate_tier3_lifecycle_def Let_def ratio_or_zero_eq caveats_of_def
      returned_def)

lemma tier4_caveats:
  "i \<noteq> 0 \<Longrightarrow>
   \<exists>cs. caveats_of (calculate_tier4_intergenerational g a n i) = Some cs \<and> cs \<noteq> []"
  by (simp add: calculate_tier4_intergenerational_def Let_def ratio_or_zero_eq
      py_truediv_nonzero caveats_of_def returned_def)

lemma tier4_zero_investment_raises:
  "calculate_tier4_intergenerational g a n 0 = Inl ZeroDivisionError"
  by (simp add: calculate_tier4_intergenerational_def Let_def ratio_or_zero_eq py_truediv_def)

lemma sensitivity_has_no_caveats:
  "\<exists>r. calculate_sensitivity_analysis g i = Inr r \<and> dget ''caveats'' r = None
     \<and> (\<exists>n. dpath [''attribution'', ''note''] r = Some (PStr n))
     \<and> (\<exists>n. dpath [''wage_persistence'', ''note''] r = Some (PStr n))
     \<and> (\<exists>n. dpath [''denominator'', ''recommendation''] r = Some (PStr n))"
proof -
  obtain xs where "attribution_scenarios g i [100, 70, 50, 30] = Inr xs"
    using attribution_returns by blast
  then show ?thesis
    by (simp add: calculate_sensitivity_analysis_def Let_def ratio_or_zero_eq)
qed

lemma tier_returns:
  "\<exists>r. calculate_tier1_conservative g i = Inr r"
  "\<exists>r. calculate_tier2_taxpayer g counts i = Inr r"
  "\<exists>r. calculate_tier3_lifecycle g i = Inr r"
  "\<exists>r. calculate_sensitivity_analysis g i = Inr r"
  using sensitivity_has_no_caveats [of g i]
  by (auto simp: calculate_tier1_conservative_def calculate_tier2_taxpayer_def
      calculate_tier3_lifecycle_def Let_def div_or_inf_eq ratio_or_zero_eq py_truediv_nonzero)

lemma tier4_returns:
  "i \<noteq> 0 \<Longrightarrow> \<exists>r. calculate_tier4_intergenerational g a n i = Inr r"
  by (simp add: calculate_tier4_intergenerational_def Let_def ratio_or_zero_eq
      py_truediv_nonzero)

text \<open>
  C4, as the code has it. Tiers 1, 2 and 3 return, for every input, a result whose
  \<open>caveats\<close> entry is a non-empty list, and so does tier 4 for every input with a
  non-zero investment. The sensitivity analysis returns for every input a result with no
  \<open>caveats\<close> entry: what it carries is a note on the attribution and on the
  wage-persistence scenarios and a recommendation on the denominator scenarios.
\<close>

theorem caveats_of_tiers:
  "(\<exists>cs. caveats_of (calculate_tier1_conservative g i) = Some cs \<and> cs \<noteq> [])
   \<and> (\<exists>cs. caveats_of (calculate_tier2_taxpayer g counts i) = Some cs \<and> cs \<noteq> [])
   \<and> (\<exists>cs. caveats_of (calculate_tier3_lifecycle g i) = Some cs \<and> cs \<noteq> [])
   \<and> (i \<noteq> 0 \<longrightarrow>
        (\<exists>cs. caveats_of (calculate_tier4_intergenerational g a n i) = Some cs \<and> cs \<noteq> []))
   \<and> (\<exists>r. calculate_sensitivity_analysis g i = Inr r \<and> dget ''caveats'' r = None
         \<and> (\<exists>n. dpath [''attribution'', ''note''] r = Some (PStr n))
         \<and> (\<exists>n. dpath [''wage_persistence'', ''note''] r = Some (PStr n))
         \<and> (\<exists>n. dpath [''denominator'', ''recommendation''] r = Some (PStr n)))"
proof (intro conjI impI)
  show "\<exists>cs. caveats_of (calculate_tier1_conservative g i) = Some cs \<and> cs \<noteq> []"
    by (rule tier1_caveats)
  show "\<exists>cs. caveats_of (calculate_tier2_taxpayer g counts i) = Some cs \<and> cs \<noteq> []"
    by (rule tier2_caveats)
  show "\<exists>cs. caveats_of (calculate_tier3_lifecycle g i) = Some cs \<and> cs \<noteq> []"
    by (rule tier3_caveats)
  show "\<exists>cs. caveats_of (calculate_tier4_intergenerational g a n i) = Some cs \<and> cs \<noteq> []"
    if "i \<noteq> 0" using that by (rule tier4_caveats)
  show "\<exists>r. calculate_sensitivity_analysis g i = Inr r \<and> dget ''caveats'' r = None
         \<and> (\<exists>n. dpath [''attribution'', ''note''] r = Some (PStr n))
         \<and> (\<exists>n. dpath [''wage_persistence'', ''note''] r = Some (PStr n))
         \<and> (\<exists>n. dpath [''denominator'', ''recommendation''] r = Some (PStr n))"
    by (rule sensitivity_has_no_caveats)
qed

text \<open>
  The claim as worded fails on the sensitivity analysis: for wage gains of 6,200,000 and
  an investment of 25,000,000 it returns a dict, and the dict has no \<open>caveats\<close> key.
\<close>

theorem sensitivity_caveats_counterexample:
  "\<not> isl (calculate_sensitivity_analysis 6200000 25000000)
   \<and> dget ''caveats'' (projr (calculate_sensitivity_analysis 6200000 25000000)) = None"
  using sensitivity_has_no_caveats [of 6200000 25000000] by auto

text \<open>
  An instance: with wage gains of 6,200,000, 862 families and the investment of
  25,000,000, tier 4 returns a list of five caveats and tier 1 a list of three.
\<close>

theorem caveats_of_tiers_witness:
  "(25000000 :: real) \<noteq> 0
   \<and> (\<exists>cs. caveats_of (calculate_tier4_intergenerational 6200000 7000 862 25000000) = Some cs
         \<and> length cs = 5)
   \<and> (\<exists>cs. caveats_of (calculate_tier1_conservative 6200000 25000000) = Some cs
         \<and> length cs = 3)"
  using caveats_of_tiers [of 6200000 25000000 "[]" 7000 862]
  by (simp add: calculate_tier4_intergenerational_def calculate_tier1_conservative_def Let_def
      ratio_or_zero_eq div_or_inf_eq py_truediv_nonzero caveats_of_def returned_def)

lemma binary_exponent_numeral:
  "binary_exponent (numeral k) x =
     (if 2 \<le> x then binary_exponent (pred_numeral k) (x / 2) + 1
      else if x < 1 then binary_exponent (pred_numeral k) (x * 2) - 1
      else 0)"
  by (simp add: numeral_eq_Suc)

lemmas rounding_defs =
  py_round_def to_double_def binary_exponent_numeral round_half_even_def Let_def
  power_int_minus

lemma py_round_examples:
  "py_round (6200000 / 25000000) 4 = 0.248"
  "py_round (25000000 / 6200000) 2 = 4.03"
  "py_round (107000 / 40000) 2 = 2.67"
  "py_round (3750 / 25000000) 4 = 0.0001"
  "py_round 0 0 = 0"
  "py_round 5150 0 = 5150"
  by (simp_all add: rounding_defs)



section \<open>Tier 2 on the journey table\<close>

lemma full_roi_tier2:
  assumes "has_wage_column js"
  shows "returned (''tier2_taxpayer'' # ks) (calculate_full_roi js) =
   returned ks (calculate_tier2_taxpayer (sum_list (positive_changes js))
                  (fpl_tier_counts_of js) PROGRAM_INVESTMENT)"
proof -
  let ?g = "sum_list (positive_changes js)"
  define a where
    "a = (if 0 < length (positive_changes js)
          then ?g / real (length (positive_changes js)) else 0)"
  obtain r1 where r1: "calculate_tier1_conservative ?g PROGRAM_INVESTMENT = Inr r1"
    using tier_returns(1) by blast
  obtain r2 where
    r2: "calculate_tier2_taxpayer ?g (fpl_tier_counts_of js) PROGRAM_INVESTMENT = Inr r2"
    using tier_returns(2) by blast
  obtain r3 where r3: "calculate_tier3_lifecycle ?g PROGRAM_INVESTMENT = Inr r3"
    using tier_returns(3) by blast
  have "PROGRAM_INVESTMENT \<noteq> 0" by (simp add: PROGRAM_INVESTMENT_def)
  then obtain r4 where
    r4: "calculate_tier4_intergenerational ?g a (int (length js)) PROGRAM_INVESTMENT = Inr r4"
    using tier4_returns by blast
  obtain r5 where r5: "calculate_sensitivity_analysis ?g PROGRAM_INVESTMENT = Inr r5"
    using tier_returns(4) by blast
  have "calculate_full_roi js = Inr (PDict
      [(''fpl_distribution'', PDict (map (\<lambda>(k, n). (k, PInt n)) (fpl_tier_counts_of js))),
       (''tier1_conservative'', r1),
       (''tier2_taxpayer'', r2),
       (''tier3_lifecycle'', r3),
       (''tier4_intergenerational'', r4),
       (''sensitivity_analysis'', r5)])"
    unfolding calculate_full_roi_def Let_def a_def [symmetric]
    using assms by (simp add: r1 r2 r3 r4 r5)
  then show ?thesis
    by (simp add: r2 returned_def)
qed

lemma full_roi_without_wage_column:
  "\<not> has_wage_column js \<Longrightarrow> calculate_full_roi js = Inl KeyError"
  by (simp add: calculate_full_roi_def)

lemma tier2_tier3_count:
  "returned [''benefits_savings'', ''by_tier'', ''tier3_100plus'', ''count'']
       (calculate_tier2_taxpayer g counts i)
     = Some (PInt (tier_count counts ''working_progress''))"
  by (simp add: calculate_tier2_taxpayer_def Let_def py_truediv_nonzero returned_def)

lemma tier2_total_annual:
  "returned [''benefits_savings'', ''total_annual''] (calculate_tier2_taxpayer g counts i)
     = Some (PFloat (Fin (py_round (total_benefits counts) 0)))"
  by (simp add: calculate_tier2_taxpayer_def Let_def py_truediv_nonzero returned_def)

lemma fpl_tier_counts_of_single:
  "fpl_tier_counts_of [j] = (case cliff_tier j of None \<Rightarrow> [] | Some t \<Rightarrow> [(t, 1)])"
  by (simp add: fpl_tier_counts_of_def value_counts_def List.map_filter_simps
      split: option.splits)

lemma total_benefits_examples:
  "total_benefits [(''deep_cliff'', 1)] = 0"
  "total_benefits [(''liheap_childcare'', 1)] = 0"
  "total_benefits [(categorize_fpl (PyNum 160), 1)] = 5150"
  "total_benefits [(''graduated'', 1)] = 17900"
  "total_benefits [(''near_graduation'', 1)] = 9900"
  by (simp_all add: total_benefits_def grad_savings_def tier2_savings_def tier3_savings_def
      tier4_savings_def tier_count_def categorize_fpl_def tanf_cash_def snap_household_def
      tenncare_adult_def childcare_full_def childcare_reduced_def)

text \<open>
  C5 does not hold of the code for the 150-185% and 130-150% bands. Tier 2 reads the
  counts under the keys \<open>working_progress\<close> and \<open>snap_cliff\<close>, the names that
  \<open>categorize_fpl\<close> gives on the assessments branch; the journey table names the same
  bands \<open>deep_cliff\<close> and \<open>liheap_childcare\<close>, so on the journeys branch both counts
  are 0. Participant 7, with a wage gain of 5000 and a current FPL of 160 from the
  extract, is in tier \<open>deep_cliff\<close>; the full ROI analysis of the table holding this
  one journey counts no family in the 150-185% band and reports a
  benefits-cost-avoidance of 0, where one family counted under the other branch's name
  for the same FPL gives 5150.
\<close>

theorem tier2_misses_journey_tiers:
  "(let j = build_single_journey 7 [] [] [] []
        [\<lparr> emp_participant_id = PyNum 7, empower_wage_gain = PyNum 5000,
            empower_fpl_current = PyNum 160, empower_fpl_enrollment = PyNaN,
            empower_household_size = PyNaN, empower_county = None,
            empower_navigator = None \<rparr>] None
    in cliff_tier j = Some ''deep_cliff''
       \<and> income_change_annual j = PyNum 5000
       \<and> returned [''tier2_taxpayer'', ''benefits_savings'', ''by_tier'', ''tier3_100plus'',
                    ''count'']
            (calculate_full_roi [j]) = Some (PInt 0)
       \<and> returned [''tier2_taxpayer'', ''benefits_savings'', ''total_annual'']
            (calculate_full_roi [j]) = Some (PFloat (Fin 0)))
   \<and> returned [''benefits_savings'', ''total_annual'']
        (calculate_tier2_taxpayer 5000 [(categorize_fpl (PyNum 160), 1)] PROGRAM_INVESTMENT)
       = Some (PFloat (Fin 5150))"
proof -
  have fields: "cliff_tier (build_single_journey 7 [] [] [] []
        [\<lparr> emp_participant_id = PyNum 7, empower_wage_gain = PyNum 5000,
            empower_fpl_current = PyNum 160, empower_fpl_enrollment = PyNaN,
            empower_household_size = PyNaN, empower_county = None,
            empower_navigator = None \<rparr>] None) = Some ''deep_cliff''"
    "income_change_annual (build_single_journey 7 [] [] [] []
        [\<lparr> emp_participant_id = PyNum 7, empower_wage_gain = PyNum 5000,
            empower_fpl_current = PyNum 160, empower_fpl_enrollment = PyNaN,
            empower_household_size = PyNaN, empower_county = None,
            empower_navigator = None \<rparr>] None) = PyNum 5000"
    by (simp_all add: journey_defs Let_def cong: let_weak_cong)
  then have kept: "has_wage_column [build_single_journey 7 [] [] [] []
        [\<lparr> emp_participant_id = PyNum 7, empower_wage_gain = PyNum 5000,
            empower_fpl_current = PyNum 160, empower_fpl_enrollment = PyNaN,
            empower_household_size = PyNaN, empower_county = None,
            empower_navigator = None \<rparr>] None]"
    by (simp add: has_wage_column_def)
  from fields show ?thesis
    by (simp add: Let_def full_roi_tier2 [OF kept] tier2_total_annual tier2_tier3_count
        fpl_tier_counts_of_single total_benefits_examples py_round_examples tier_count_def)
qed

end
